theory Spec2Isabelle
  imports Complex_Main "HOL-Library.Sublist"
begin

section \<open>Vectors and the scene data model (src/scene/Scene.hpp)\<close>

text \<open>
  The glm vector types are tuples of scalars.  The scalar type is a parameter \<open>'f\<close> wherever
  the code only copies values (the packing step never computes with a float), so that what
  is proved there holds for any representation of a 32-bit float, its bit pattern included.
  The shader stages compute with the scalars; there \<open>'f\<close> is \<open>real\<close>.
\<close>

datatype 'f vec2 = Vec2 (x2: 'f) (y2: 'f)

datatype 'f vec3 = Vec3 (x3: 'f) (y3: 'f) (z3: 'f)

datatype 'f vec4 = Vec4 (x4: 'f) (y4: 'f) (z4: 'f) (w4: 'f)

text \<open>\<open>glm::quat\<close>: members x, y, z, w; the constructor takes (w, x, y, z).\<close>

record 'f quat =
  qx :: 'f
  qy :: 'f
  qz :: 'f
  qw :: 'f

definition glm_quat :: "'f \<Rightarrow> 'f \<Rightarrow> 'f \<Rightarrow> 'f \<Rightarrow> 'f quat" where
  "glm_quat w x y z = \<lparr>qx = x, qy = y, qz = z, qw = w\<rparr>"

text \<open>\<open>glm::vec4(vec3, float)\<close>.\<close>

definition vec4_of_vec3 :: "'f vec3 \<Rightarrow> 'f \<Rightarrow> 'f vec4" where
  "vec4_of_vec3 v w = Vec4 (x3 v) (y3 v) (z3 v) w"

text \<open>\<open>struct Gaussian3D\<close>.\<close>

record 'f Gaussian3D =
  mean :: "'f vec3"
  scale :: "'f vec3"
  rotation :: "'f quat"
  opacity :: 'f
  color :: "'f vec3"

text \<open>\<open>struct GaussianInstanceGPU\<close>: four vec4 groups, sixteen floats, 64 bytes.\<close>

record 'f GaussianInstanceGPU =
  mean_opacity :: "'f vec4"
  quat :: "'f vec4"
  scale_colorx :: "'f vec4"
  coloryz_pad :: "'f vec4"

text \<open>The sixteen floats of an instance in memory order, as the buffer upload sees them.\<close>

definition vec4_floats :: "'f vec4 \<Rightarrow> 'f list" where
  "vec4_floats v = [x4 v, y4 v, z4 v, w4 v]"

definition instance_floats :: "'f GaussianInstanceGPU \<Rightarrow> 'f list" where
  "instance_floats i =
     vec4_floats (mean_opacity i) @ vec4_floats (quat i) @
     vec4_floats (scale_colorx i) @ vec4_floats (coloryz_pad i)"

definition sizeof_float :: nat where
  "sizeof_float = 4"

definition sizeof_instance :: "'f GaussianInstanceGPU \<Rightarrow> nat" where
  "sizeof_instance i = length (instance_floats i) * sizeof_float"

section \<open>The packing loop of \<open>Renderer::render_scene\<close>\<close>

text \<open>The body of the loop: one \<open>Gaussian3D\<close> to one \<open>GaussianInstanceGPU\<close>.\<close>

definition pack_instance :: "'f::zero Gaussian3D \<Rightarrow> 'f GaussianInstanceGPU" where
  "pack_instance g =
     \<lparr>mean_opacity = vec4_of_vec3 (mean g) (opacity g),
      quat = Vec4 (qx (rotation g)) (qy (rotation g)) (qz (rotation g)) (qw (rotation g)),
      scale_colorx = vec4_of_vec3 (scale g) (x3 (color g)),
      coloryz_pad = Vec4 (y3 (color g)) (z3 (color g)) 0 0\<rparr>"

text \<open>The range-for loop, \<open>instanceData.push_back(inst)\<close> appending at the end.\<close>

fun pack_loop :: "'f::zero Gaussian3D list \<Rightarrow> 'f GaussianInstanceGPU list
    \<Rightarrow> 'f GaussianInstanceGPU list" where
  "pack_loop [] instanceData = instanceData"
| "pack_loop (g # gs) instanceData = pack_loop gs (instanceData @ [pack_instance g])"

definition pack_instances :: "'f::zero Gaussian3D list \<Rightarrow> 'f GaussianInstanceGPU list" where
  "pack_instances gaussians = pack_loop gaussians []"

text \<open>
  Reading an instance back, by the layout comments of \<open>GaussianInstanceGPU\<close>
  (xyz = position, w = opacity; xyzw quaternion; xyz = scale, w = color.x; xy = color.yz)
  and as the vertex stage reads its four attributes.
\<close>

definition unpack_instance :: "'f GaussianInstanceGPU \<Rightarrow> 'f Gaussian3D" where
  "unpack_instance i =
     \<lparr>mean = Vec3 (x4 (mean_opacity i)) (y4 (mean_opacity i)) (z4 (mean_opacity i)),
      scale = Vec3 (x4 (scale_colorx i)) (y4 (scale_colorx i)) (z4 (scale_colorx i)),
      rotation = \<lparr>qx = x4 (quat i), qy = y4 (quat i), qz = z4 (quat i), qw = w4 (quat i)\<rparr>,
      opacity = w4 (mean_opacity i),
      color = Vec3 (w4 (scale_colorx i)) (x4 (coloryz_pad i)) (y4 (coloryz_pad i))\<rparr>"

section \<open>The OpenGL context as explicit state\<close>

text \<open>
  The code drives one OpenGL context from one thread.  The context is a record: the
  sequence of commands issued so far (what a call-counting stub would see), the pieces of
  render state the renderer sets, and the object stores.  Standard error is part of the
  same environment.
\<close>

datatype gl_cap = GL_BLEND | GL_DEPTH_TEST

datatype gl_factor = GL_ZERO | GL_ONE | GL_ONE_MINUS_SRC_ALPHA

datatype gl_usage = GL_STATIC_DRAW | GL_DYNAMIC_DRAW

datatype gl_shader_type = GL_VERTEX_SHADER | GL_FRAGMENT_SHADER

text \<open>The two raw string literals of \<open>Renderer::create_shader_program\<close>.\<close>

datatype glsl_source = Vs_src | Fs_src

text \<open>\<open>glm::mat4\<close>, column-major as in GLSL: four column vectors.\<close>

datatype 'f mat4 = Mat4 (col0: "'f vec4") (col1: "'f vec4") (col2: "'f vec4") (col3: "'f vec4")

datatype 'f gl_call =
    Enable gl_cap
  | Disable gl_cap
  | BlendFunc gl_factor gl_factor
  | DepthMask bool
  | UseProgram nat
  | UniformMatrix4fv int "'f mat4"
  | GenVertexArrays nat
  | BindVertexArray nat
  | DeleteVertexArrays nat
  | GenBuffers nat
  | DeleteBuffers nat
  | BindBuffer nat
  | BufferData nat "'f list" gl_usage
  | EnableVertexAttribArray nat
  | VertexAttribPointer nat nat nat nat
  | VertexAttribDivisor nat nat
  | DrawArraysInstanced nat nat int
  | GetError
  | CreateShader gl_shader_type nat
  | ShaderSource nat glsl_source
  | CompileShader nat
  | DeleteShader nat
  | CreateProgram nat
  | AttachShader nat nat
  | LinkProgram nat
  | DeleteProgram nat

record shader_obj =
  sh_type :: gl_shader_type
  sh_source :: "glsl_source option"
  sh_compile_status :: bool
  sh_info_log :: string
  sh_attached_to :: "nat list"
  sh_delete_flag :: bool

record program_obj =
  pr_attached :: "nat list"
  pr_link_status :: bool
  pr_info_log :: string

text \<open>
  What the driver decides and the code cannot: whether a source compiles, whether two
  stages link, the diagnostic text, and where a uniform lives.
\<close>

record driver =
  compile_result :: "gl_shader_type \<Rightarrow> glsl_source option \<Rightarrow> bool \<times> string"
  link_result :: "glsl_source option list \<Rightarrow> bool \<times> string"
  uniform_location :: "nat \<Rightarrow> string \<Rightarrow> int"

record 'f env =
  calls :: "'f gl_call list"
  blend :: bool
  blend_func :: "gl_factor \<times> gl_factor"
  depth_test :: bool
  depth_mask :: bool
  current_program :: nat
  vertex_array_binding :: nat
  array_buffer_binding :: nat
  buffers :: "nat \<rightharpoonup> 'f list"
  shaders :: "nat \<rightharpoonup> shader_obj"
  programs :: "nat \<rightharpoonup> program_obj"
  last_name :: nat
  error_flag :: nat
  stderr :: string

definition issue :: "'f gl_call \<Rightarrow> 'f env \<Rightarrow> 'f env" where
  "issue c e = e\<lparr>calls := calls e @ [c]\<rparr>"

text \<open>Object names are handed out by the driver, never 0; here a counter.\<close>

definition fresh_name :: "'f env \<Rightarrow> nat \<times> 'f env" where
  "fresh_name e = (Suc (last_name e), e\<lparr>last_name := Suc (last_name e)\<rparr>)"

definition glEnable :: "gl_cap \<Rightarrow> 'f env \<Rightarrow> 'f env" where
  "glEnable cap e =
     (case cap of
        GL_BLEND \<Rightarrow> (issue (Enable cap) e)\<lparr>blend := True\<rparr>
      | GL_DEPTH_TEST \<Rightarrow> (issue (Enable cap) e)\<lparr>depth_test := True\<rparr>)"

definition glDisable :: "gl_cap \<Rightarrow> 'f env \<Rightarrow> 'f env" where
  "glDisable cap e =
     (case cap of
        GL_BLEND \<Rightarrow> (issue (Disable cap) e)\<lparr>blend := False\<rparr>
      | GL_DEPTH_TEST \<Rightarrow> (issue (Disable cap) e)\<lparr>depth_test := False\<rparr>)"

definition glBlendFunc :: "gl_factor \<Rightarrow> gl_factor \<Rightarrow> 'f env \<Rightarrow> 'f env" where
  "glBlendFunc sfactor dfactor e = (issue (BlendFunc sfactor dfactor) e)\<lparr>blend_func := (sfactor, dfactor)\<rparr>"

definition glDepthMask :: "bool \<Rightarrow> 'f env \<Rightarrow> 'f env" where
  "glDepthMask flag e = (issue (DepthMask flag) e)\<lparr>depth_mask := flag\<rparr>"

definition glUseProgram :: "nat \<Rightarrow> 'f env \<Rightarrow> 'f env" where
  "glUseProgram p e = (issue (UseProgram p) e)\<lparr>current_program := p\<rparr>"

definition glUniformMatrix4fv :: "int \<Rightarrow> 'f mat4 \<Rightarrow> 'f env \<Rightarrow> 'f env" where
  "glUniformMatrix4fv loc m e = issue (UniformMatrix4fv loc m) e"

definition glGenVertexArrays :: "'f env \<Rightarrow> nat \<times> 'f env" where
  "glGenVertexArrays e = (case fresh_name e of (n, e') \<Rightarrow> (n, issue (GenVertexArrays n) e'))"

definition glBindVertexArray :: "nat \<Rightarrow> 'f env \<Rightarrow> 'f env" where
  "glBindVertexArray a e = (issue (BindVertexArray a) e)\<lparr>vertex_array_binding := a\<rparr>"

definition glGenBuffers :: "'f env \<Rightarrow> nat \<times> 'f env" where
  "glGenBuffers e = (case fresh_name e of (n, e') \<Rightarrow> (n, issue (GenBuffers n) e'))"

definition glDeleteBuffers :: "nat \<Rightarrow> 'f env \<Rightarrow> 'f env" where
  "glDeleteBuffers b e =
     (issue (DeleteBuffers b) e)
       \<lparr>array_buffer_binding := (if array_buffer_binding e = b then 0 else array_buffer_binding e),
        buffers := (buffers e)(b := None)\<rparr>"

definition glBindBuffer :: "nat \<Rightarrow> 'f env \<Rightarrow> 'f env" where
  "glBindBuffer b e = (issue (BindBuffer b) e)\<lparr>array_buffer_binding := b\<rparr>"

text \<open>\<open>glBufferData(GL_ARRAY_BUFFER, size, data, usage)\<close>: replaces the bound buffer's store.\<close>

definition glBufferData :: "nat \<Rightarrow> 'f list \<Rightarrow> gl_usage \<Rightarrow> 'f env \<Rightarrow> 'f env" where
  "glBufferData size_bytes floats usage e =
     (issue (BufferData size_bytes floats usage) e)
       \<lparr>buffers := (buffers e)(array_buffer_binding e \<mapsto> floats)\<rparr>"

definition glEnableVertexAttribArray :: "nat \<Rightarrow> 'f env \<Rightarrow> 'f env" where
  "glEnableVertexAttribArray i e = issue (EnableVertexAttribArray i) e"

definition glVertexAttribPointer :: "nat \<Rightarrow> nat \<Rightarrow> nat \<Rightarrow> nat \<Rightarrow> 'f env \<Rightarrow> 'f env" where
  "glVertexAttribPointer i n stride offset e = issue (VertexAttribPointer i n stride offset) e"

definition glVertexAttribDivisor :: "nat \<Rightarrow> nat \<Rightarrow> 'f env \<Rightarrow> 'f env" where
  "glVertexAttribDivisor i d e = issue (VertexAttribDivisor i d) e"

definition glDrawArraysInstanced :: "nat \<Rightarrow> nat \<Rightarrow> int \<Rightarrow> 'f env \<Rightarrow> 'f env" where
  "glDrawArraysInstanced first count instancecount e =
     issue (DrawArraysInstanced first count instancecount) e"

text \<open>\<open>glGetError\<close> returns the recorded error code and clears it.\<close>

definition GL_NO_ERROR :: nat where
  "GL_NO_ERROR = 0"

definition glGetError :: "'f env \<Rightarrow> nat \<times> 'f env" where
  "glGetError e = (error_flag e, (issue GetError e)\<lparr>error_flag := GL_NO_ERROR\<rparr>)"

text \<open>The conversion \<open>%x\<close> of \<open>fprintf\<close>: lower-case hexadecimal without leading zeros.\<close>

definition hex_digit :: "nat \<Rightarrow> char" where
  "hex_digit d = ''0123456789abcdef'' ! d"

fun hex :: "nat \<Rightarrow> string" where
  "hex n = (if n < 16 then [hex_digit n] else hex (n div 16) @ [hex_digit (n mod 16)])"

declare hex.simps [simp del]

text \<open>The conversion \<open>%s\<close>: the characters of a C string up to its first NUL.\<close>

definition c_str :: "string \<Rightarrow> string" where
  "c_str s = takeWhile (\<lambda>c. c \<noteq> CHR 0x00) s"

definition fprintf_stderr :: "string \<Rightarrow> 'f env \<Rightarrow> 'f env" where
  "fprintf_stderr s e = e\<lparr>stderr := stderr e @ s\<rparr>"

section \<open>Buffers (src/render/Buffers.cpp)\<close>

text \<open>\<open>Buffer::Buffer()\<close>, \<open>Buffer::~Buffer()\<close>, \<open>Buffer::bind\<close> and \<open>Buffer::set_data\<close>;
  a \<open>Buffer\<close> is its handle \<open>m_vbo\<close>.\<close>

definition Buffer_ctor :: "'f env \<Rightarrow> nat \<times> 'f env" where
  "Buffer_ctor e = glGenBuffers e"

definition Buffer_dtor :: "nat \<Rightarrow> 'f env \<Rightarrow> 'f env" where
  "Buffer_dtor m_vbo e = (if m_vbo \<noteq> 0 then glDeleteBuffers m_vbo e else e)"

definition Buffer_bind :: "nat \<Rightarrow> 'f env \<Rightarrow> 'f env" where
  "Buffer_bind m_vbo e = glBindBuffer m_vbo e"

text \<open>\<open>set_data<GaussianInstanceGPU>\<close>: \<open>data.size() * sizeof(T)\<close> bytes from \<open>data.data()\<close>.\<close>

definition Buffer_set_data :: "nat \<Rightarrow> 'f GaussianInstanceGPU list \<Rightarrow> gl_usage \<Rightarrow> 'f env \<Rightarrow> 'f env" where
  "Buffer_set_data m_vbo data usage e =
     glBufferData (length data * (16 * sizeof_float)) (concat (map instance_floats data)) usage
       (Buffer_bind m_vbo e)"

section \<open>Shader and program objects\<close>

definition glCreateShader :: "gl_shader_type \<Rightarrow> 'f env \<Rightarrow> nat \<times> 'f env" where
  "glCreateShader ty e =
     (case fresh_name e of (n, e') \<Rightarrow>
        (n, (issue (CreateShader ty n) e')
              \<lparr>shaders := (shaders e')(n \<mapsto>
                 \<lparr>sh_type = ty, sh_source = None, sh_compile_status = False, sh_info_log = [],
                  sh_attached_to = [], sh_delete_flag = False\<rparr>)\<rparr>))"

definition update_shader :: "nat \<Rightarrow> (shader_obj \<Rightarrow> shader_obj) \<Rightarrow> 'f env \<Rightarrow> 'f env" where
  "update_shader s f e =
     (case shaders e s of None \<Rightarrow> e | Some so \<Rightarrow> e\<lparr>shaders := (shaders e)(s \<mapsto> f so)\<rparr>)"

definition update_program :: "nat \<Rightarrow> (program_obj \<Rightarrow> program_obj) \<Rightarrow> 'f env \<Rightarrow> 'f env" where
  "update_program p f e =
     (case programs e p of None \<Rightarrow> e | Some po \<Rightarrow> e\<lparr>programs := (programs e)(p \<mapsto> f po)\<rparr>)"

definition glShaderSource :: "nat \<Rightarrow> glsl_source \<Rightarrow> 'f env \<Rightarrow> 'f env" where
  "glShaderSource s src e =
     update_shader s (\<lambda>so. so\<lparr>sh_source := Some src\<rparr>) (issue (ShaderSource s src) e)"

definition glCompileShader :: "driver \<Rightarrow> nat \<Rightarrow> 'f env \<Rightarrow> 'f env" where
  "glCompileShader drv s e =
     update_shader s
       (\<lambda>so. case compile_result drv (sh_type so) (sh_source so) of
                (ok, text) \<Rightarrow> so\<lparr>sh_compile_status := ok, sh_info_log := text\<rparr>)
       (issue (CompileShader s) e)"

definition glGetShaderiv_COMPILE_STATUS :: "nat \<Rightarrow> 'f env \<Rightarrow> bool" where
  "glGetShaderiv_COMPILE_STATUS s e =
     (case shaders e s of None \<Rightarrow> False | Some so \<Rightarrow> sh_compile_status so)"

text \<open>\<open>GL_INFO_LOG_LENGTH\<close> counts the terminating NUL; it is 0 when there is no log.\<close>

definition info_log_length :: "string \<Rightarrow> nat" where
  "info_log_length text = (if text = [] then 0 else length text + 1)"

definition glGetShaderiv_INFO_LOG_LENGTH :: "nat \<Rightarrow> 'f env \<Rightarrow> nat" where
  "glGetShaderiv_INFO_LOG_LENGTH s e =
     (case shaders e s of None \<Rightarrow> 0 | Some so \<Rightarrow> info_log_length (sh_info_log so))"

text \<open>
  \<open>glGetShaderInfoLog(s, bufSize, nullptr, buf)\<close> and \<open>glGetProgramInfoLog\<close> write at most
  \<open>bufSize - 1\<close> characters of the log and a terminating NUL; the result here is what
  they write.
\<close>

definition info_log_written :: "nat \<Rightarrow> string \<Rightarrow> string" where
  "info_log_written bufSize text = (if bufSize = 0 then [] else take (bufSize - 1) text @ [CHR 0x00])"

definition glGetShaderInfoLog :: "nat \<Rightarrow> nat \<Rightarrow> 'f env \<Rightarrow> string" where
  "glGetShaderInfoLog s bufSize e =
     (case shaders e s of None \<Rightarrow> [] | Some so \<Rightarrow> info_log_written bufSize (sh_info_log so))"

text \<open>\<open>std::string log((size_t)len, '\0')\<close> after the driver wrote into \<open>log.data()\<close>.\<close>

definition std_string_filled :: "nat \<Rightarrow> string \<Rightarrow> string" where
  "std_string_filled len written = written @ replicate (len - length written) (CHR 0x00)"

text \<open>A shader that is attached to a program is flagged and goes when it is detached.\<close>

definition glDeleteShader :: "nat \<Rightarrow> 'f env \<Rightarrow> 'f env" where
  "glDeleteShader s e =
     (let e' = issue (DeleteShader s) e in
      case shaders e' s of
        None \<Rightarrow> e'
      | Some so \<Rightarrow>
          if sh_attached_to so = [] then e'\<lparr>shaders := (shaders e')(s := None)\<rparr>
          else e'\<lparr>shaders := (shaders e')(s \<mapsto> so\<lparr>sh_delete_flag := True\<rparr>)\<rparr>)"

definition glCreateProgram :: "'f env \<Rightarrow> nat \<times> 'f env" where
  "glCreateProgram e =
     (case fresh_name e of (n, e') \<Rightarrow>
        (n, (issue (CreateProgram n) e')
              \<lparr>programs := (programs e')(n \<mapsto>
                 \<lparr>pr_attached = [], pr_link_status = False, pr_info_log = []\<rparr>)\<rparr>))"

definition glAttachShader :: "nat \<Rightarrow> nat \<Rightarrow> 'f env \<Rightarrow> 'f env" where
  "glAttachShader p s e =
     (let e' = issue (AttachShader p s) e in
      if programs e' p = None \<or> shaders e' s = None then e'
      else update_shader s (\<lambda>so. so\<lparr>sh_attached_to := sh_attached_to so @ [p]\<rparr>)
             (update_program p (\<lambda>po. po\<lparr>pr_attached := pr_attached po @ [s]\<rparr>) e'))"

definition glLinkProgram :: "driver \<Rightarrow> nat \<Rightarrow> 'f env \<Rightarrow> 'f env" where
  "glLinkProgram drv p e =
     (let e' = issue (LinkProgram p) e in
      update_program p
        (\<lambda>po. case link_result drv
                     (map (\<lambda>s. case shaders e' s of None \<Rightarrow> None | Some so \<Rightarrow> sh_source so)
                        (pr_attached po)) of
                 (ok, text) \<Rightarrow> po\<lparr>pr_link_status := ok, pr_info_log := text\<rparr>)
        e')"

definition glGetProgramiv_LINK_STATUS :: "nat \<Rightarrow> 'f env \<Rightarrow> bool" where
  "glGetProgramiv_LINK_STATUS p e =
     (case programs e p of None \<Rightarrow> False | Some po \<Rightarrow> pr_link_status po)"

definition glGetProgramiv_INFO_LOG_LENGTH :: "nat \<Rightarrow> 'f env \<Rightarrow> nat" where
  "glGetProgramiv_INFO_LOG_LENGTH p e =
     (case programs e p of None \<Rightarrow> 0 | Some po \<Rightarrow> info_log_length (pr_info_log po))"

definition glGetProgramInfoLog :: "nat \<Rightarrow> nat \<Rightarrow> 'f env \<Rightarrow> string" where
  "glGetProgramInfoLog p bufSize e =
     (case programs e p of None \<Rightarrow> [] | Some po \<Rightarrow> info_log_written bufSize (pr_info_log po))"

text \<open>Detaching a shader from a deleted program; a flagged shader with no program left goes.\<close>

definition detach_shader :: "nat \<Rightarrow> nat \<Rightarrow> 'f env \<Rightarrow> 'f env" where
  "detach_shader p s e =
     (case shaders e s of
        None \<Rightarrow> e
      | Some so \<Rightarrow>
          let rest = removeAll p (sh_attached_to so) in
          if sh_delete_flag so \<and> rest = [] then e\<lparr>shaders := (shaders e)(s := None)\<rparr>
          else e\<lparr>shaders := (shaders e)(s \<mapsto> so\<lparr>sh_attached_to := rest\<rparr>)\<rparr>)"

definition glDeleteProgram :: "nat \<Rightarrow> 'f env \<Rightarrow> 'f env" where
  "glDeleteProgram p e =
     (let e' = issue (DeleteProgram p) e in
      case programs e' p of
        None \<Rightarrow> e'
      | Some po \<Rightarrow> (fold (detach_shader p) (pr_attached po) e')\<lparr>programs := (programs e')(p := None)\<rparr>)"

section \<open>Shader.cpp\<close>

text \<open>Every exception thrown in Shader.cpp is a \<open>std::runtime_error\<close>; \<open>what\<close> is its message.\<close>

datatype runtime_error = Runtime_error (what: string)

text \<open>\<open>Shader::compile\<close>: a thrown exception is \<open>Inl\<close>; the context it leaves behind is returned
  beside it.\<close>

definition Shader_compile ::
  "driver \<Rightarrow> gl_shader_type \<Rightarrow> glsl_source \<Rightarrow> 'f env \<Rightarrow> (runtime_error + nat) \<times> 'f env" where
  "Shader_compile drv type src e =
     (let (s, e1) = glCreateShader type e;
          e2 = glShaderSource s src e1;
          e3 = glCompileShader drv s e2;
          ok = glGetShaderiv_COMPILE_STATUS s e3
      in if \<not> ok then
           let len = glGetShaderiv_INFO_LOG_LENGTH s e3;
               log_string = std_string_filled len (glGetShaderInfoLog s len e3);
               e4 = glDeleteShader s e3
           in (Inl (Runtime_error (''Shader compile failed: '' @ log_string)), e4)
         else (Inr s, e3))"

text \<open>\<open>Shader::create_program\<close>.\<close>

definition Shader_create_program ::
  "driver \<Rightarrow> glsl_source \<Rightarrow> glsl_source \<Rightarrow> 'f env \<Rightarrow> (runtime_error + nat) \<times> 'f env" where
  "Shader_create_program drv vs_src fs_src e =
     (case Shader_compile drv GL_VERTEX_SHADER vs_src e of
        (Inl ex, e1) \<Rightarrow> (Inl ex, e1)
      | (Inr vs, e1) \<Rightarrow>
          (case Shader_compile drv GL_FRAGMENT_SHADER fs_src e1 of
             (Inl ex, e2) \<Rightarrow> (Inl ex, e2)
           | (Inr fs, e2) \<Rightarrow>
               let (p, e3) = glCreateProgram e2;
                   e4 = glAttachShader p vs e3;
                   e5 = glAttachShader p fs e4;
                   e6 = glLinkProgram drv p e5;
                   e7 = glDeleteShader vs e6;
                   e8 = glDeleteShader fs e7;
                   ok = glGetProgramiv_LINK_STATUS p e8
               in if \<not> ok then
                    let len = glGetProgramiv_INFO_LOG_LENGTH p e8;
                        log_string = std_string_filled len (glGetProgramInfoLog p len e8);
                        e9 = glDeleteProgram p e8
                    in (Inl (Runtime_error (''Program link failed: '' @ log_string)), e9)
                  else (Inr p, e8)))"

section \<open>The renderer (src/render/Renderer.hpp, Renderer.cpp)\<close>

record QuadMesh =
  vao :: nat
  vbo :: nat

record InstanceBuffer =
  ib_vbo :: "nat option"
  instance_count :: nat

text \<open>The members of \<open>Renderer\<close>; a \<open>unique_ptr\<close> is an option, \<open>None\<close> when null.\<close>

record Renderer =
  m_viewport_width :: int
  m_viewport_height :: int
  m_program :: nat
  m_quad_mesh :: "QuadMesh option"
  m_instance_buffer :: "InstanceBuffer option"

record 'f Scene =
  m_gaussians :: "'f Gaussian3D list"

definition get_gaussians :: "'f Scene \<Rightarrow> 'f Gaussian3D list" where
  "get_gaussians scene = m_gaussians scene"

text \<open>The cast \<open>(GLsizei)m_instance_buffer->instance_count\<close>: size_t to a signed 32-bit int.\<close>

definition GLsizei_cast :: "nat \<Rightarrow> int" where
  "GLsizei_cast n = (let m = int n mod 2 ^ 32 in if m < 2 ^ 31 then m else m - 2 ^ 32)"

text \<open>The loop \<open>for (int i = 0; i < 4; i++)\<close> declaring the four instanced attributes.\<close>

definition define_attribute :: "nat \<Rightarrow> 'f env \<Rightarrow> 'f env" where
  "define_attribute i e =
     glVertexAttribDivisor (i + 1) 1
       (glVertexAttribPointer (i + 1) 4 (16 * sizeof_float) (i * (4 * sizeof_float))
         (glEnableVertexAttribArray (i + 1) e))"

definition define_attributes :: "'f env \<Rightarrow> 'f env" where
  "define_attributes e = fold define_attribute [0, 1, 2, 3] e"

text \<open>
  \<open>Renderer::render_scene\<close>.  Dereferencing a null \<open>m_instance_buffer\<close> or \<open>m_quad_mesh\<close>
  (a renderer on which \<open>init\<close> did not complete) is undefined behaviour: the result \<open>None\<close>.
\<close>

definition render_scene ::
  "driver \<Rightarrow> 'f::zero Scene \<Rightarrow> 'f mat4 \<Rightarrow> 'f mat4 \<Rightarrow> Renderer \<times> 'f env
     \<Rightarrow> (Renderer \<times> 'f env) option" where
  "render_scene drv scene view projection = (\<lambda>(r, e).
     let gaussians = get_gaussians scene in
     if gaussians = [] then Some (r, e)
     else
       let instanceData = pack_instances gaussians in
       case m_instance_buffer r of
         None \<Rightarrow> None
       | Some ib \<Rightarrow>
           (case m_quad_mesh r of
              None \<Rightarrow> None
            | Some quad \<Rightarrow>
                let (new_vbo, e1) = Buffer_ctor e;
                    e2 = (case ib_vbo ib of None \<Rightarrow> e1 | Some old \<Rightarrow> Buffer_dtor old e1);
                    e3 = Buffer_set_data new_vbo instanceData GL_DYNAMIC_DRAW e2;
                    ib' = \<lparr>ib_vbo = Some new_vbo, instance_count = length instanceData\<rparr>;
                    r' = r\<lparr>m_instance_buffer := Some ib'\<rparr>;
                    e4 = glEnable GL_BLEND e3;
                    e5 = glBlendFunc GL_ONE GL_ONE_MINUS_SRC_ALPHA e4;
                    e6 = glEnable GL_DEPTH_TEST e5;
                    e7 = glDepthMask False e6;
                    e8 = glUseProgram (m_program r') e7;
                    e9 = glUniformMatrix4fv (uniform_location drv (m_program r') ''uView'') view e8;
                    e10 = glUniformMatrix4fv (uniform_location drv (m_program r') ''uProj'') projection e9;
                    e11 = glBindVertexArray (vao quad) e10;
                    e12 = glBindBuffer new_vbo e11;
                    e13 = define_attributes e12;
                    e14 = glDrawArraysInstanced 0 6 (GLsizei_cast (instance_count ib')) e13;
                    e15 = glDepthMask True e14;
                    e16 = glDisable GL_BLEND e15;
                    (err, e17) = glGetError e16;
                    e18 = (if err \<noteq> GL_NO_ERROR
                           then fprintf_stderr (''[Renderer] GL Error: 0x'' @ hex err @ [CHR 0x0A]) e17
                           else e17)
                in Some (r', e18)))"

text \<open>
  \<open>Renderer::create_shader_program\<close>: the try block around \<open>Shader::create_program\<close>; the
  handler prints \<open>e.what()\<close> with \<open>%s\<close> and rethrows the same exception.  \<open>m_program\<close> is
  assigned only when no exception is thrown.
\<close>

definition create_shader_program ::
  "driver \<Rightarrow> Renderer \<times> 'f env \<Rightarrow> (runtime_error + unit) \<times> Renderer \<times> 'f env" where
  "create_shader_program drv = (\<lambda>(r, e).
     case Shader_create_program drv Vs_src Fs_src e of
       (Inr p, e') \<Rightarrow> (Inr (), r\<lparr>m_program := p\<rparr>, e')
     | (Inl ex, e') \<Rightarrow>
         (Inl ex, r,
          fprintf_stderr (''[Renderer] Shader creation failed: '' @ c_str (what ex) @ [CHR 0x0A]) e'))"

text \<open>\<open>VertexArray\<close> and \<open>QuadMesh\<close> (Buffers.cpp): the unit quad, two triangles, six vertices.\<close>

definition quadVerts :: "'f::{one,uminus} list" where
  "quadVerts = [- 1, - 1,  1, - 1,  1, 1,  - 1, - 1,  1, 1,  - 1, 1]"

definition QuadMesh_ctor :: "'f::{one,uminus} env \<Rightarrow> QuadMesh \<times> 'f env" where
  "QuadMesh_ctor e =
     (let (m_vao, e1) = glGenVertexArrays e;
          (m_vbo, e2) = Buffer_ctor e1;
          e3 = glBindVertexArray m_vao e2;
          e4 = glBufferData (12 * sizeof_float) quadVerts GL_STATIC_DRAW (Buffer_bind m_vbo e3);
          e5 = glEnableVertexAttribArray 0 e4;
          e6 = glVertexAttribPointer 0 2 (2 * sizeof_float) 0 e5;
          e7 = glBindVertexArray 0 e6
      in (\<lparr>vao = m_vao, vbo = m_vbo\<rparr>, e7))"

definition VertexArray_dtor :: "nat \<Rightarrow> 'f env \<Rightarrow> 'f env" where
  "VertexArray_dtor m_vao e =
     (if m_vao \<noteq> 0
      then (issue (DeleteVertexArrays m_vao) e)
             \<lparr>vertex_array_binding := (if vertex_array_binding e = m_vao then 0 else vertex_array_binding e)\<rparr>
      else e)"

text \<open>Members are destroyed in reverse order of declaration: \<open>m_vbo\<close>, then \<open>m_vao\<close>.\<close>

definition QuadMesh_dtor :: "QuadMesh \<Rightarrow> 'f env \<Rightarrow> 'f env" where
  "QuadMesh_dtor q e = VertexArray_dtor (vao q) (Buffer_dtor (vbo q) e)"

definition InstanceBuffer_dtor :: "InstanceBuffer \<Rightarrow> 'f env \<Rightarrow> 'f env" where
  "InstanceBuffer_dtor ib e = (case ib_vbo ib of None \<Rightarrow> e | Some b \<Rightarrow> Buffer_dtor b e)"

text \<open>
  \<open>Renderer::init\<close>.  An exception from \<open>create_shader_program\<close> leaves \<open>init\<close> at once:
  neither the quad mesh nor the instance buffer is created.  Assigning a \<open>unique_ptr\<close>
  destroys what it held.
\<close>

definition init ::
  "driver \<Rightarrow> int \<Rightarrow> int \<Rightarrow> Renderer \<times> 'f::{one,uminus} env
     \<Rightarrow> (runtime_error + unit) \<times> Renderer \<times> 'f env" where
  "init drv width height = (\<lambda>(r, e).
     let r1 = r\<lparr>m_viewport_width := width, m_viewport_height := height\<rparr> in
     case create_shader_program drv (r1, e) of
       (Inl ex, r2, e2) \<Rightarrow> (Inl ex, r2, e2)
     | (Inr u, r2, e2) \<Rightarrow>
         let (quad, e3) = QuadMesh_ctor e2;
             e4 = (case m_quad_mesh r2 of None \<Rightarrow> e3 | Some old \<Rightarrow> QuadMesh_dtor old e3);
             r3 = r2\<lparr>m_quad_mesh := Some quad\<rparr>;
             e5 = (case m_instance_buffer r3 of None \<Rightarrow> e4 | Some old \<Rightarrow> InstanceBuffer_dtor old e4);
             r4 = r3\<lparr>m_instance_buffer := Some \<lparr>ib_vbo = None, instance_count = 0\<rparr>\<rparr>
         in (Inr (), r4, e5))"

text \<open>\<open>Renderer::Renderer() = default\<close>: the member initialisers of Renderer.hpp.\<close>

definition Renderer_ctor :: Renderer where
  "Renderer_ctor = \<lparr>m_viewport_width = 0, m_viewport_height = 0, m_program = 0,
     m_quad_mesh = None, m_instance_buffer = None\<rparr>"

section \<open>The shader stages (the GLSL sources in \<open>create_shader_program\<close>)\<close>

text \<open>
  The GLSL programs compute with floats.  They are modelled in real arithmetic: \<open>log\<close> is
  \<open>ln\<close>, \<open>sqrt\<close>, \<open>min\<close>, \<open>max\<close> and the comparisons are the real ones, and rounding,
  infinities and NaN are outside the model.
\<close>

definition vec3_add :: "real vec3 \<Rightarrow> real vec3 \<Rightarrow> real vec3" where
  "vec3_add a b = Vec3 (x3 a + x3 b) (y3 a + y3 b) (z3 a + z3 b)"

definition vec3_scale :: "real vec3 \<Rightarrow> real \<Rightarrow> real vec3" where
  "vec3_scale v k = Vec3 (x3 v * k) (y3 v * k) (z3 v * k)"

definition xyz :: "'f vec4 \<Rightarrow> 'f vec3" where
  "xyz v = Vec3 (x4 v) (y4 v) (z4 v)"

definition dot2 :: "real vec2 \<Rightarrow> real vec2 \<Rightarrow> real" where
  "dot2 a b = x2 a * x2 b + y2 a * y2 b"

text \<open>\<open>M * v\<close> for a column-major matrix.\<close>

definition mat4_mul_vec4 :: "real mat4 \<Rightarrow> real vec4 \<Rightarrow> real vec4" where
  "mat4_mul_vec4 m v =
     Vec4 (x4 (col0 m) * x4 v + x4 (col1 m) * y4 v + x4 (col2 m) * z4 v + x4 (col3 m) * w4 v)
          (y4 (col0 m) * x4 v + y4 (col1 m) * y4 v + y4 (col2 m) * z4 v + y4 (col3 m) * w4 v)
          (z4 (col0 m) * x4 v + z4 (col1 m) * y4 v + z4 (col2 m) * z4 v + z4 (col3 m) * w4 v)
          (w4 (col0 m) * x4 v + w4 (col1 m) * y4 v + w4 (col2 m) * z4 v + w4 (col3 m) * w4 v)"

definition mat4_mul :: "real mat4 \<Rightarrow> real mat4 \<Rightarrow> real mat4" where
  "mat4_mul a b =
     Mat4 (mat4_mul_vec4 a (col0 b)) (mat4_mul_vec4 a (col1 b))
          (mat4_mul_vec4 a (col2 b)) (mat4_mul_vec4 a (col3 b))"

text \<open>\<open>transpose(mat3(uView))[0]\<close> and \<open>[1]\<close>: the first and second rows of the upper-left 3x3.\<close>

definition camR0 :: "real mat4 \<Rightarrow> real vec3" where
  "camR0 uView = Vec3 (x4 (col0 uView)) (x4 (col1 uView)) (x4 (col2 uView))"

definition camR1 :: "real mat4 \<Rightarrow> real vec3" where
  "camR1 uView = Vec3 (y4 (col0 uView)) (y4 (col1 uView)) (y4 (col2 uView))"

text \<open>GLSL \<open>clamp(x, lo, hi)\<close> is \<open>min(max(x, lo), hi)\<close>.\<close>

definition clamp :: "real \<Rightarrow> real \<Rightarrow> real \<Rightarrow> real" where
  "clamp x lo hi = min (max x lo) hi"

subsection \<open>Vertex stage\<close>

definition vs_eps :: real where
  "vs_eps = 0.03"

text \<open>Lines \<open>float eps = 0.03\<close> to \<open>r = min(r, 1.5)\<close>.\<close>

definition vs_radius :: "real \<Rightarrow> real" where
  "vs_radius vOpacity =
     (let eps = vs_eps;
          op = max vOpacity eps;
          r2 = 2.0 * ln (op / eps);
          r = sqrt (max r2 0.0)
      in min r 1.5)"

text \<open>\<open>float z = max(-(uView * vec4(iMeanOpacity.xyz, 1.0)).z, 0.1)\<close>.\<close>

definition vs_depth :: "real mat4 \<Rightarrow> real vec4 \<Rightarrow> real" where
  "vs_depth uView iMeanOpacity =
     max (- z4 (mat4_mul_vec4 uView (vec4_of_vec3 (xyz iMeanOpacity) 1.0))) 0.1"

text \<open>\<open>float maxWorld = 0.01 * z; vec2 s = min(iScaleColorX.xy, vec2(maxWorld))\<close>.\<close>

definition vs_scale :: "real mat4 \<Rightarrow> real vec4 \<Rightarrow> real vec4 \<Rightarrow> real vec2" where
  "vs_scale uView iMeanOpacity iScaleColorX =
     (let z = vs_depth uView iMeanOpacity;
          maxWorld = 0.01 * z
      in Vec2 (min (x4 iScaleColorX) maxWorld) (min (y4 iScaleColorX) maxWorld))"

record vs_out =
  vLocalPos :: "real vec2"
  vColor :: "real vec3"
  vOpacity :: real
  gl_Position :: "real vec4"

text \<open>\<open>main\<close> of the vertex shader, for one quad vertex of one instance.\<close>

definition vs_main :: "real mat4 \<Rightarrow> real mat4 \<Rightarrow> real vec2 \<Rightarrow> real GaussianInstanceGPU \<Rightarrow> vs_out" where
  "vs_main uView uProj aQuadPos inst =
     (let iMeanOpacity = mean_opacity inst;
          iScaleColorX = scale_colorx inst;
          iColorYZPad = coloryz_pad inst;
          right = camR0 uView;
          up = camR1 uView;
          r = vs_radius (w4 iMeanOpacity);
          s = vs_scale uView iMeanOpacity iScaleColorX;
          worldPos = vec3_add (vec3_add (xyz iMeanOpacity)
                       (vec3_scale right (x2 aQuadPos * x2 s * r)))
                       (vec3_scale up (y2 aQuadPos * y2 s * r))
      in \<lparr>vLocalPos = aQuadPos,
          vColor = Vec3 (w4 iScaleColorX) (x4 iColorYZPad) (y4 iColorYZPad),
          vOpacity = w4 iMeanOpacity,
          gl_Position = mat4_mul_vec4 (mat4_mul uProj uView) (vec4_of_vec3 worldPos 1.0)\<rparr>)"

subsection \<open>Fragment stage\<close>

text \<open>The literal of \<open>if (alpha < 0.03) discard;\<close>.\<close>

definition fs_discard_threshold :: real where
  "fs_discard_threshold = 0.03"

text \<open>Lines \<open>float r2 = dot(vLocalPos, vLocalPos)\<close> to \<open>float alpha = vOpacity * t * t\<close>.\<close>

definition fs_alpha :: "real vec2 \<Rightarrow> real \<Rightarrow> real" where
  "fs_alpha localPos op =
     (let r2 = dot2 localPos localPos;
          t = 1.0 - r2;
          t = clamp t 0.0 1.0
      in op * t * t)"

text \<open>\<open>main\<close> of the fragment shader: \<open>None\<close> is \<open>discard\<close> (no colour or depth write), otherwise
  the value of \<open>FragColor\<close>.\<close>

definition fs_main :: "real vec2 \<Rightarrow> real vec3 \<Rightarrow> real \<Rightarrow> real vec4 option" where
  "fs_main localPos col op =
     (let alpha = fs_alpha localPos op in
      if alpha < fs_discard_threshold then None
      else Some (Vec4 (x3 col * alpha) (y3 col * alpha) (z3 col * alpha) alpha))"

section \<open>Scene loading (SceneIO.cpp)\<close>





















section \<open>Concrete inputs\<close>

text \<open>A context as OpenGL creates it: nothing issued, blending off, depth writes on.\<close>

definition new_context :: "'f env" where
  "new_context =
     \<lparr>calls = [], blend = False, blend_func = (GL_ONE, GL_ZERO), depth_test = False,
      depth_mask = True, current_program = 0, vertex_array_binding = 0,
      array_buffer_binding = 0, buffers = Map.empty, shaders = Map.empty,
      programs = Map.empty, last_name = 0, error_flag = GL_NO_ERROR, stderr = []\<rparr>"

text \<open>Drivers: one that accepts both stages and links them, and three that reject the
  vertex stage, the fragment stage, and the link, each with a diagnostic.\<close>

definition good_driver :: driver where
  "good_driver =
     \<lparr>compile_result = (\<lambda>ty src. (True, [])),
      link_result = (\<lambda>srcs. (True, [])),
      uniform_location = (\<lambda>p name. if name = ''uView'' then 0 else if name = ''uProj'' then 1 else - 1)\<rparr>"

definition bad_vertex_driver :: driver where
  "bad_vertex_driver =
     good_driver\<lparr>compile_result :=
       (\<lambda>ty src. if ty = GL_VERTEX_SHADER then (False, ''0:9: syntax error'') else (True, []))\<rparr>"

definition bad_fragment_driver :: driver where
  "bad_fragment_driver =
     good_driver\<lparr>compile_result :=
       (\<lambda>ty src. if ty = GL_FRAGMENT_SHADER then (False, ''0:7: undeclared'') else (True, []))\<rparr>"

definition bad_link_driver :: driver where
  "bad_link_driver = good_driver\<lparr>link_result := (\<lambda>srcs. (False, ''varying mismatch''))\<rparr>"

text \<open>The record of the specification's end-to-end scenario, a fully transparent one, and a
  renderer as \<open>init\<close> leaves it.\<close>

definition red_gaussian :: "real Gaussian3D" where
  "red_gaussian =
     \<lparr>mean = Vec3 0 0 0, scale = Vec3 1 1 1, rotation = glm_quat 1 0 0 0, opacity = 1,
      color = Vec3 1 0 0\<rparr>"

definition clear_gaussian :: "real Gaussian3D" where
  "clear_gaussian =
     \<lparr>mean = Vec3 2 3 4, scale = Vec3 5 6 7, rotation = glm_quat 8 9 10 11, opacity = 0,
      color = Vec3 12 13 14\<rparr>"

definition ready_renderer :: Renderer where
  "ready_renderer =
     \<lparr>m_viewport_width = 800, m_viewport_height = 600, m_program = 3,
      m_quad_mesh = Some \<lparr>vao = 4, vbo = 5\<rparr>,
      m_instance_buffer = Some \<lparr>ib_vbo = None, instance_count = 0\<rparr>\<rparr>"

definition identity_mat4 :: "real mat4" where
  "identity_mat4 = Mat4 (Vec4 1 0 0 0) (Vec4 0 1 0 0) (Vec4 0 0 1 0) (Vec4 0 0 0 1)"






section \<open>Properties of the packing and of \<open>render_scene\<close>\<close>

lemma pack_loop_map: "pack_loop gs acc = acc @ map pack_instance gs"
  by (induction gs arbitrary: acc) simp_all

lemma pack_instances_map: "pack_instances gs = map pack_instance gs"
  by (simp add: pack_instances_def pack_loop_map)


lemma instance_floats_pack:
  "instance_floats (pack_instance g) =
     [x3 (mean g), y3 (mean g), z3 (mean g), opacity g,
      qx (rotation g), qy (rotation g), qz (rotation g), qw (rotation g),
      x3 (scale g), y3 (scale g), z3 (scale g), x3 (color g),
      y3 (color g), z3 (color g), 0, 0]"
  by (simp add: instance_floats_def vec4_floats_def pack_instance_def vec4_of_vec3_def)

lemma sizeof_pack_instance: "sizeof_instance (pack_instance g) = 64"
  by (simp add: sizeof_instance_def instance_floats_pack sizeof_float_def)

lemma buffers_frame:
  "buffers (issue c e) = buffers e"
  "buffers (glEnable cap e) = buffers e"
  "buffers (glDisable cap e) = buffers e"
  "buffers (glBlendFunc sf df e) = buffers e"
  "buffers (glDepthMask flag e) = buffers e"
  "buffers (glUseProgram p e) = buffers e"
  "buffers (glUniformMatrix4fv loc m e) = buffers e"
  "buffers (glBindVertexArray a e) = buffers e"
  "buffers (glBindBuffer b e) = buffers e"
  "buffers (glEnableVertexAttribArray i e) = buffers e"
  "buffers (glVertexAttribPointer i n st off e) = buffers e"
  "buffers (glVertexAttribDivisor i d e) = buffers e"
  "buffers (glDrawArraysInstanced fi co ic e) = buffers e"
  "buffers (fprintf_stderr s e) = buffers e"
  "buffers (snd (glGetError e)) = buffers e"
  by (simp_all add: issue_def glEnable_def glDisable_def glBlendFunc_def glDepthMask_def
        glUseProgram_def glUniformMatrix4fv_def glBindVertexArray_def glBindBuffer_def
        glEnableVertexAttribArray_def glVertexAttribPointer_def glVertexAttribDivisor_def
        glDrawArraysInstanced_def fprintf_stderr_def glGetError_def split: gl_cap.split)

lemma buffers_define_attributes: "buffers (define_attributes e) = buffers e"
  by (simp add: define_attributes_def define_attribute_def buffers_frame)

lemma buffers_set_data:
  "buffers (Buffer_set_data b d u e) b = Some (concat (map instance_floats d))"
  by (simp add: Buffer_set_data_def Buffer_bind_def glBufferData_def glBindBuffer_def issue_def)

lemma render_scene_uploads:
  assumes "get_gaussians scene \<noteq> []" "m_instance_buffer r = Some ib" "m_quad_mesh r = Some q"
  shows "\<exists>r' e' b. render_scene drv scene view projection (r, e) = Some (r', e') \<and>
           m_instance_buffer r' = Some \<lparr>ib_vbo = Some b, instance_count = length (get_gaussians scene)\<rparr> \<and>
           buffers e' b = Some (concat (map instance_floats (pack_instances (get_gaussians scene))))"
  using assms
  by (simp add: render_scene_def Let_def split_beta buffers_frame buffers_define_attributes
        buffers_set_data pack_instances_map)

text \<open>
  Claim C1.  For every scene the packing loop of \<open>render_scene\<close> yields as many instances as
  the scene has records, in the same order; the i-th instance is the packing of the i-th
  record, its sixteen floats (64 bytes) being mean.xyz, opacity, rotation.xyzw,
  scale.xyz, color.r, color.g, color.b, 0, 0.  Nothing is filtered or reordered, whatever
  the opacity.  When the scene is not empty, \<open>render_scene\<close> uploads exactly these floats to
  the new instance buffer and records the count.
\<close>

theorem pack_instances_one_to_one:
  fixes gs :: "'f::zero Gaussian3D list"
  shows "length (pack_instances gs) = length gs \<and>
    (\<forall>i<length gs.
       pack_instances gs ! i = pack_instance (gs ! i) \<and>
       sizeof_instance (pack_instances gs ! i) = 64 \<and>
       instance_floats (pack_instances gs ! i) =
         [x3 (mean (gs ! i)), y3 (mean (gs ! i)), z3 (mean (gs ! i)), opacity (gs ! i),
          qx (rotation (gs ! i)), qy (rotation (gs ! i)), qz (rotation (gs ! i)), qw (rotation (gs ! i)),
          x3 (scale (gs ! i)), y3 (scale (gs ! i)), z3 (scale (gs ! i)), x3 (color (gs ! i)),
          y3 (color (gs ! i)), z3 (color (gs ! i)), 0, 0]) \<and>
    (get_gaussians scene = gs \<and> gs \<noteq> [] \<and> m_instance_buffer r = Some ib \<and> m_quad_mesh r = Some q \<longrightarrow>
       (\<exists>r' e' b. render_scene drv scene view projection (r, e) = Some (r', e') \<and>
          m_instance_buffer r' = Some \<lparr>ib_vbo = Some b, instance_count = length gs\<rparr> \<and>
          buffers e' b = Some (concat (map instance_floats (pack_instances gs)))))"
proof (intro conjI allI impI)
  show "length (pack_instances gs) = length gs"
    by (simp add: pack_instances_map)
next
  fix i assume "i < length gs"
  then show "pack_instances gs ! i = pack_instance (gs ! i)"
    by (simp add: pack_instances_map)
  with \<open>i < length gs\<close> show "sizeof_instance (pack_instances gs ! i) = 64"
    by (simp add: sizeof_pack_instance)
  from \<open>pack_instances gs ! i = pack_instance (gs ! i)\<close>
  show "instance_floats (pack_instances gs ! i) =
         [x3 (mean (gs ! i)), y3 (mean (gs ! i)), z3 (mean (gs ! i)), opacity (gs ! i),
          qx (rotation (gs ! i)), qy (rotation (gs ! i)), qz (rotation (gs ! i)), qw (rotation (gs ! i)),
          x3 (scale (gs ! i)), y3 (scale (gs ! i)), z3 (scale (gs ! i)), x3 (color (gs ! i)),
          y3 (color (gs ! i)), z3 (color (gs ! i)), 0, 0]"
    by (simp only: instance_floats_pack)
next
  assume "get_gaussians scene = gs \<and> gs \<noteq> [] \<and> m_instance_buffer r = Some ib \<and> m_quad_mesh r = Some q"
  then show "\<exists>r' e' b. render_scene drv scene view projection (r, e) = Some (r', e') \<and>
          m_instance_buffer r' = Some \<lparr>ib_vbo = Some b, instance_count = length gs\<rparr> \<and>
          buffers e' b = Some (concat (map instance_floats (pack_instances gs)))"
    using render_scene_uploads [of scene r ib q drv view projection e] by auto
qed

theorem pack_instances_one_to_one_witness:
  "(1::nat) < length [red_gaussian, clear_gaussian] \<and>
   length (pack_instances [red_gaussian, clear_gaussian]) = 2 \<and>
   instance_floats (pack_instances [red_gaussian, clear_gaussian] ! 1) =
     [2, 3, 4, 0, 9, 10, 11, 8, 5, 6, 7, 12, 13, 14, 0, 0] \<and>
   (\<exists>r' e' b.
      render_scene good_driver \<lparr>m_gaussians = [red_gaussian, clear_gaussian]\<rparr>
          identity_mat4 identity_mat4 (ready_renderer, new_context) = Some (r', e') \<and>
      m_instance_buffer r' = Some \<lparr>ib_vbo = Some b, instance_count = 2\<rparr> \<and>
      buffers e' b = Some [0, 0, 0, 1, 0, 0, 0, 1, 1, 1, 1, 1, 0, 0, 0, 0,
                           2, 3, 4, 0, 9, 10, 11, 8, 5, 6, 7, 12, 13, 14, 0, 0])"
proof -
  let ?gs = "[red_gaussian, clear_gaussian]"
  have len: "(1::nat) < length ?gs" by simp
  have hyp: "get_gaussians \<lparr>m_gaussians = ?gs\<rparr> = ?gs \<and> ?gs \<noteq> [] \<and>
      m_instance_buffer ready_renderer = Some \<lparr>ib_vbo = None, instance_count = 0\<rparr> \<and>
      m_quad_mesh ready_renderer = Some \<lparr>vao = 4, vbo = 5\<rparr>"
    by (simp add: get_gaussians_def ready_renderer_def)
  have fl: "concat (map instance_floats (pack_instances ?gs)) =
      [0, 0, 0, 1, 0, 0, 0, 1, 1, 1, 1, 1, 0, 0, 0, 0,
       2, 3, 4, 0, 9, 10, 11, 8, 5, 6, 7, 12, 13, 14, 0, 0]"
    by (simp add: pack_instances_map instance_floats_pack red_gaussian_def clear_gaussian_def glm_quat_def)
  note inst = pack_instances_one_to_one [of ?gs "\<lparr>m_gaussians = ?gs\<rparr>" ready_renderer
      "\<lparr>ib_vbo = None, instance_count = 0\<rparr>" "\<lparr>vao = 4, vbo = 5\<rparr>"
      good_driver identity_mat4 identity_mat4 new_context]
  from inst have a: "length (pack_instances ?gs) = 2" by simp
  from inst [THEN conjunct2, THEN conjunct1, rule_format, OF len, THEN conjunct2, THEN conjunct2]
  have b: "instance_floats (pack_instances ?gs ! 1) =
     [2, 3, 4, 0, 9, 10, 11, 8, 5, 6, 7, 12, 13, 14, 0, 0]"
    by (simp add: clear_gaussian_def glm_quat_def)
  from inst [THEN conjunct2, THEN conjunct2, rule_format, OF hyp]
  have c: "\<exists>r' e' b.
      render_scene good_driver \<lparr>m_gaussians = ?gs\<rparr>
          identity_mat4 identity_mat4 (ready_renderer, new_context) = Some (r', e') \<and>
      m_instance_buffer r' = Some \<lparr>ib_vbo = Some b, instance_count = length ?gs\<rparr> \<and>
      buffers e' b = Some (concat (map instance_floats (pack_instances ?gs)))" .
  show ?thesis using len a b c unfolding fl by (simp add: numeral_2_eq_2)
qed

text \<open>The vertex stage reads colour and opacity of a packed record from where the packing
  put them.\<close>

lemma vs_main_reads_instance:
  "vColor (vs_main uView uProj aQuadPos (pack_instance g)) = color g"
  "vOpacity (vs_main uView uProj aQuadPos (pack_instance g)) = opacity g"
  "vLocalPos (vs_main uView uProj aQuadPos (pack_instance g)) = aQuadPos"
  by (simp_all add: vs_main_def Let_def pack_instance_def vec4_of_vec3_def)

text \<open>
  Claim C3.  Reading the four vec4 groups of a packed record back gives the record again:
  mean, rotation, scale, opacity and color are each recovered unchanged, for any scalar
  representation.
\<close>

theorem pack_unpack_round_trip:
  "unpack_instance (pack_instance g) = g \<and>
   mean (unpack_instance (pack_instance g)) = mean g \<and>
   rotation (unpack_instance (pack_instance g)) = rotation g \<and>
   scale (unpack_instance (pack_instance g)) = scale g \<and>
   opacity (unpack_instance (pack_instance g)) = opacity g \<and>
   color (unpack_instance (pack_instance g)) = color g"
  by (simp add: unpack_instance_def pack_instance_def vec4_of_vec3_def)

text \<open>
  Claim C6.  For every view and projection matrix, \<open>render_scene\<close> on a scene without
  records returns with the renderer and the whole environment unchanged: no command is
  added to the issued commands (no buffer is created or filled, no state is set, nothing
  is drawn), and nothing is printed.
\<close>

theorem render_scene_empty_is_noop:
  "get_gaussians scene = [] \<Longrightarrow> render_scene drv scene view projection (r, e) = Some (r, e)"
  by (simp add: render_scene_def)

theorem render_scene_empty_is_noop_witness:
  "get_gaussians \<lparr>m_gaussians = ([] :: real Gaussian3D list)\<rparr> = [] \<and>
   render_scene good_driver \<lparr>m_gaussians = []\<rparr> identity_mat4 identity_mat4 (ready_renderer, new_context)
     = Some (ready_renderer, new_context) \<and>
   render_scene good_driver \<lparr>m_gaussians = []\<rparr> identity_mat4 identity_mat4 (Renderer_ctor, new_context)
     = Some (Renderer_ctor, new_context)"
proof -
  have h: "get_gaussians \<lparr>m_gaussians = ([] :: real Gaussian3D list)\<rparr> = []"
    by (simp add: get_gaussians_def)
  show ?thesis
    using h render_scene_empty_is_noop [OF h, of good_driver identity_mat4 identity_mat4 ready_renderer new_context]
      render_scene_empty_is_noop [OF h, of good_driver identity_mat4 identity_mat4 Renderer_ctor new_context]
    by simp
qed

text \<open>
  Claim C8.  On a scene that is not empty (and a renderer that \<open>init\<close> has set up),
  \<open>render_scene\<close> returns with depth writes enabled and blending disabled, whatever they were
  before the call.
\<close>

theorem render_scene_restores_state:
  assumes "get_gaussians scene \<noteq> []" "m_instance_buffer r = Some ib" "m_quad_mesh r = Some q"
  shows "\<exists>r' e'. render_scene drv scene view projection (r, e) = Some (r', e') \<and>
           depth_mask e' = True \<and> blend e' = False"
  using assms
  by (simp add: render_scene_def Let_def split_beta glGetError_def issue_def fprintf_stderr_def
        glDisable_def glDepthMask_def)

theorem render_scene_restores_state_witness:
  "get_gaussians \<lparr>m_gaussians = [red_gaussian]\<rparr> \<noteq> [] \<and>
   m_instance_buffer ready_renderer = Some \<lparr>ib_vbo = None, instance_count = 0\<rparr> \<and>
   m_quad_mesh ready_renderer = Some \<lparr>vao = 4, vbo = 5\<rparr> \<and>
   (\<exists>r' e'. render_scene good_driver \<lparr>m_gaussians = [red_gaussian]\<rparr> identity_mat4 identity_mat4
               (ready_renderer, new_context\<lparr>blend := True, depth_mask := False\<rparr>) = Some (r', e') \<and>
            depth_mask e' = True \<and> blend e' = False)"
proof -
  have h1: "get_gaussians \<lparr>m_gaussians = [red_gaussian]\<rparr> \<noteq> []"
    by (simp add: get_gaussians_def)
  have h2: "m_instance_buffer ready_renderer = Some \<lparr>ib_vbo = None, instance_count = 0\<rparr>"
    and h3: "m_quad_mesh ready_renderer = Some \<lparr>vao = 4, vbo = 5\<rparr>"
    by (simp_all add: ready_renderer_def)
  show ?thesis
    using h1 h2 h3 render_scene_restores_state [OF h1 h2 h3, of good_driver identity_mat4 identity_mat4
        "new_context\<lparr>blend := True, depth_mask := False\<rparr>"]
    by blast
qed

section \<open>Properties of the shader stages\<close>


lemma vs_radius_unfold:
  "vs_radius op = min (sqrt (max (2 * ln (max op 0.03 / 0.03)) 0)) 1.5"
  by (simp add: vs_radius_def vs_eps_def Let_def)

lemma vs_radius_mono: assumes "a \<le> b" shows "vs_radius a \<le> vs_radius b"
proof -
  have pos: "0 < max a 0.03 / (0.03::real)" by simp
  have le: "max a 0.03 / 0.03 \<le> max b 0.03 / (0.03::real)"
    using assms by (simp add: divide_right_mono max.coboundedI1)
  have "ln (max a 0.03 / 0.03) \<le> ln (max b 0.03 / (0.03::real))"
    using pos le by (simp only: ln_mono)
  then have "max (2 * ln (max a 0.03 / 0.03)) 0 \<le> max (2 * ln (max b 0.03 / (0.03::real))) 0"
    by (simp add: max.coboundedI1)
  then have "sqrt (max (2 * ln (max a 0.03 / 0.03)) 0) \<le> sqrt (max (2 * ln (max b 0.03 / (0.03::real))) 0)"
    by (simp only: real_sqrt_le_iff)
  then show ?thesis
    unfolding vs_radius_unfold by (rule min.mono) simp
qed

lemma vs_radius_below: assumes "op \<le> 0.03" shows "vs_radius op = 0"
proof -
  have "max op 0.03 = (0.03::real)" using assms by simp
  then show ?thesis unfolding vs_radius_unfold by simp
qed

lemma ln_100_3: "9 / 8 \<le> ln (100 / 3 :: real)"
proof -
  have "exp (9 / 8 :: real) \<le> exp 2" by simp
  also have "exp (2::real) = exp 1 * exp 1" by (simp flip: exp_add)
  also have "\<dots> \<le> 3 * 3" by (intro mult_mono exp_le) simp_all
  also have "\<dots> \<le> (100 / 3 :: real)" by simp
  finally have "exp (9 / 8 :: real) \<le> 100 / 3" .
  moreover have "(0::real) < 100 / 3" by simp
  ultimately show ?thesis by (simp only: ln_ge_iff)
qed

lemma vs_radius_one: "vs_radius 1 = 1.5"
proof -
  have "(9 / 4 :: real) \<le> 2 * ln (100 / 3)" using ln_100_3 by simp
  then have "sqrt (9 / 4) \<le> sqrt (2 * ln (100 / 3 :: real))"
    by (simp only: real_sqrt_le_iff)
  moreover have "sqrt (9 / 4 :: real) = 3 / 2"
    by (rule real_sqrt_unique) (simp_all add: power2_eq_square)
  ultimately have "3 / 2 \<le> sqrt (max (2 * ln (max 1 0.03 / 0.03)) (0::real))"
    using ln_100_3 by (simp add: max_def)
  then show ?thesis unfolding vs_radius_unfold by simp
qed

text \<open>
  Claim C2.  The vertex-stage radius is \<open>min (sqrt (max (2 * ln (max opacity 0.03 / 0.03)) 0)) 1.5\<close>;
  it never decreases when the opacity grows; opacity 1.0 gives the cap 1.5; opacity 0.03
  gives 0, and so does every opacity below 0.03.
\<close>

theorem vs_radius_from_opacity:
  "vs_radius op = min (sqrt (max (2 * ln (max op 0.03 / 0.03)) 0)) 1.5 \<and>
   (\<forall>a b. a \<le> b \<longrightarrow> vs_radius a \<le> vs_radius b) \<and>
   vs_radius 1.0 = 1.5 \<and>
   vs_radius 0.03 = 0 \<and>
   (\<forall>lo. lo < 0.03 \<longrightarrow> vs_radius lo = 0)"
  using vs_radius_unfold [of op] vs_radius_mono vs_radius_one vs_radius_below [of "0.03"]
    vs_radius_below
  by (simp add: less_imp_le)

theorem vs_radius_from_opacity_witness:
  "(0.5::real) \<le> 1 \<and> vs_radius 0.5 \<le> vs_radius 1 \<and> vs_radius 1 = 1.5 \<and>
   (0.01::real) < 0.03 \<and> vs_radius 0.01 = 0 \<and> vs_radius (- 2) = 0 \<and> vs_radius 0.5 \<le> 1.5"
proof -
  note r = vs_radius_from_opacity [of 0]
  have h1: "(0.5::real) \<le> 1" and h2: "(0.01::real) < 0.03" and h3: "(- 2 :: real) < 0.03"
    by simp_all
  from r have mono: "vs_radius 0.5 \<le> vs_radius 1"
    using h1 by blast
  from r have one: "vs_radius 1 = 1.5" by simp
  from r have z1: "vs_radius 0.01 = 0" using h2 by blast
  from r have z2: "vs_radius (- 2) = 0" using h3 by blast
  show ?thesis using h1 h2 mono one z1 z2 by simp
qed

lemma fs_alpha_unfold: "fs_alpha p op = op * clamp (1 - dot2 p p) 0 1 * clamp (1 - dot2 p p) 0 1"
  by (simp add: fs_alpha_def Let_def)

lemma fs_alpha_center: "fs_alpha (Vec2 0 0) op = op"
  by (simp add: fs_alpha_def Let_def dot2_def clamp_def)

lemma fs_alpha_outside: assumes "1 \<le> sqrt (dot2 p p)" shows "fs_alpha p op = 0"
proof -
  have "1 \<le> dot2 p p" using assms by simp
  then show ?thesis by (simp add: fs_alpha_def Let_def clamp_def)
qed

lemma fs_main_discard: "fs_main p col op = None \<longleftrightarrow> fs_alpha p op < 0.03"
  by (simp add: fs_main_def fs_discard_threshold_def Let_def)

text \<open>
  Claim C4.  The fragment-stage alpha is \<open>opacity * t * t\<close> with
  \<open>t = clamp (1 - dot localPos localPos) 0 1\<close>.  At the quad centre it is the opacity itself;
  at every position of Euclidean norm at least 1 it is 0, and the fragment is discarded.
\<close>

theorem fs_alpha_falloff:
  "fs_alpha p op = op * clamp (1 - dot2 p p) 0 1 * clamp (1 - dot2 p p) 0 1 \<and>
   fs_alpha (Vec2 0 0) op = op \<and>
   (1 \<le> sqrt (dot2 p p) \<longrightarrow> fs_alpha p op = 0 \<and> fs_main p col op = None)"
proof (intro conjI impI)
  show "fs_alpha p op = op * clamp (1 - dot2 p p) 0 1 * clamp (1 - dot2 p p) 0 1"
    by (rule fs_alpha_unfold)
  show "fs_alpha (Vec2 0 0) op = op"
    by (rule fs_alpha_center)
  assume far: "1 \<le> sqrt (dot2 p p)"
  then show zero: "fs_alpha p op = 0"
    by (rule fs_alpha_outside)
  show "fs_main p col op = None"
    unfolding fs_main_discard zero by simp
qed

theorem fs_alpha_falloff_witness:
  "(1::real) \<le> sqrt (dot2 (Vec2 1 1) (Vec2 1 1)) \<and>
   fs_alpha (Vec2 1 1) 0.8 = 0 \<and> fs_main (Vec2 1 1) (Vec3 1 0 0) 0.8 = None \<and>
   fs_alpha (Vec2 0 0) 0.8 = 0.8 \<and>
   (1::real) \<le> sqrt (dot2 (Vec2 0 (- 1)) (Vec2 0 (- 1))) \<and> fs_alpha (Vec2 0 (- 1)) 1 = 0"
proof -
  have h1: "(1::real) \<le> sqrt (dot2 (Vec2 1 1) (Vec2 1 1))"
    by (simp add: dot2_def)
  have h2: "(1::real) \<le> sqrt (dot2 (Vec2 0 (- 1)) (Vec2 0 (- 1)))"
    by (simp add: dot2_def)
  note corner = fs_alpha_falloff [of "Vec2 1 1" "0.8" "Vec3 1 0 0"]
  note edge = fs_alpha_falloff [of "Vec2 0 (- 1)" 1 "Vec3 1 0 0"]
  from corner [THEN conjunct2, THEN conjunct2, rule_format, OF h1]
  have c: "fs_alpha (Vec2 1 1) 0.8 = 0 \<and> fs_main (Vec2 1 1) (Vec3 1 0 0) 0.8 = None" .
  from corner [THEN conjunct2, THEN conjunct1]
  have m: "fs_alpha (Vec2 0 0) 0.8 = 0.8" .
  from edge [THEN conjunct2, THEN conjunct2, rule_format, OF h2]
  have e: "fs_alpha (Vec2 0 (- 1)) 1 = 0" by (rule conjunct1)
  show ?thesis using h1 h2 c m e by blast
qed

text \<open>
  Claim C5.  A fragment is discarded exactly when its alpha is strictly below 0.03.  A
  fragment whose alpha is 0.03 is kept and written premultiplied, as is every fragment at
  or above the threshold.  The threshold is the constant \<open>eps\<close> of the vertex stage.
\<close>

theorem fs_discard_iff:
  "(fs_main p col op = None \<longleftrightarrow> fs_alpha p op < 0.03) \<and>
   (fs_alpha p op = 0.03 \<longrightarrow>
      fs_main p col op = Some (Vec4 (x3 col * 0.03) (y3 col * 0.03) (z3 col * 0.03) 0.03)) \<and>
   (fs_alpha p op \<ge> 0.03 \<longrightarrow>
      fs_main p col op = Some (Vec4 (x3 col * fs_alpha p op) (y3 col * fs_alpha p op)
                                 (z3 col * fs_alpha p op) (fs_alpha p op))) \<and>
   fs_discard_threshold = vs_eps"
  by (simp add: fs_main_def fs_discard_threshold_def vs_eps_def Let_def)

theorem fs_discard_iff_witness:
  "fs_alpha (Vec2 0 0) 0.03 = 0.03 \<and>
   fs_main (Vec2 0 0) (Vec3 1 0 0) 0.03 = Some (Vec4 0.03 0 0 0.03) \<and>
   fs_alpha (Vec2 0 0) 0.02 < 0.03 \<and>
   fs_main (Vec2 0 0) (Vec3 1 0 0) 0.02 = None"
proof -
  have a: "fs_alpha (Vec2 0 0) 0.03 = 0.03" and b: "fs_alpha (Vec2 0 0) 0.02 < 0.03"
    by (simp_all add: fs_alpha_def Let_def dot2_def clamp_def)
  show ?thesis
    using a b fs_discard_iff [of "Vec2 0 0" "Vec3 1 0 0" "0.03"]
      fs_discard_iff [of "Vec2 0 0" "Vec3 1 0 0" "0.02"]
    by simp
qed


section \<open>Shader compilation and linking failures\<close>


lemma log_string_read:
  "std_string_filled (info_log_length info) (info_log_written (info_log_length info) info)
     = (if info = [] then [] else info @ [CHR 0x00])"
  by (simp add: std_string_filled_def info_log_length_def info_log_written_def)

lemma Shader_compile_fails:
  assumes "compile_result drv ty (Some src) = (False, info)"
  shows "Shader_compile drv ty src e =
    (Inl (Runtime_error (''Shader compile failed: '' @ (if info = [] then [] else info @ [CHR 0x00]))),
     e\<lparr>calls := calls e @ [CreateShader ty (Suc (last_name e)), ShaderSource (Suc (last_name e)) src,
                            CompileShader (Suc (last_name e)), DeleteShader (Suc (last_name e))],
       shaders := (shaders e)(Suc (last_name e) := None),
       last_name := Suc (last_name e)\<rparr>)"
  using assms
  by (simp add: Shader_compile_def Let_def glCreateShader_def fresh_name_def issue_def
        glShaderSource_def update_shader_def glCompileShader_def glGetShaderiv_COMPILE_STATUS_def
        glGetShaderiv_INFO_LOG_LENGTH_def glGetShaderInfoLog_def glDeleteShader_def log_string_read)

lemma Shader_compile_succeeds:
  assumes "compile_result drv ty (Some src) = (True, info)"
  shows "Shader_compile drv ty src e =
    (Inr (Suc (last_name e)),
     e\<lparr>calls := calls e @ [CreateShader ty (Suc (last_name e)), ShaderSource (Suc (last_name e)) src,
                            CompileShader (Suc (last_name e))],
       shaders := (shaders e)(Suc (last_name e) \<mapsto>
          \<lparr>sh_type = ty, sh_source = Some src, sh_compile_status = True, sh_info_log = info,
           sh_attached_to = [], sh_delete_flag = False\<rparr>),
       last_name := Suc (last_name e)\<rparr>)"
  using assms
  by (simp add: Shader_compile_def Let_def glCreateShader_def fresh_name_def issue_def
        glShaderSource_def update_shader_def glCompileShader_def glGetShaderiv_COMPILE_STATUS_def)


lemma create_program_vertex_fails:
  assumes "compile_result drv GL_VERTEX_SHADER (Some vsrc) = (False, info)"
  shows "Shader_create_program drv vsrc fsrc e =
    (Inl (Runtime_error (''Shader compile failed: '' @ (if info = [] then [] else info @ [CHR 0x00]))),
     e\<lparr>calls := calls e @ [CreateShader GL_VERTEX_SHADER (Suc (last_name e)),
                            ShaderSource (Suc (last_name e)) vsrc,
                            CompileShader (Suc (last_name e)), DeleteShader (Suc (last_name e))],
       shaders := (shaders e)(Suc (last_name e) := None),
       last_name := Suc (last_name e)\<rparr>)"
  by (simp add: Shader_create_program_def Shader_compile_fails [OF assms])

lemma create_program_fragment_fails:
  assumes "compile_result drv GL_VERTEX_SHADER (Some vsrc) = (True, vtxt)"
    and "compile_result drv GL_FRAGMENT_SHADER (Some fsrc) = (False, info)"
  shows "Shader_create_program drv vsrc fsrc e =
    (Inl (Runtime_error (''Shader compile failed: '' @ (if info = [] then [] else info @ [CHR 0x00]))),
     e\<lparr>calls := calls e @ [CreateShader GL_VERTEX_SHADER (Suc (last_name e)),
                            ShaderSource (Suc (last_name e)) vsrc,
                            CompileShader (Suc (last_name e)),
                            CreateShader GL_FRAGMENT_SHADER (Suc (Suc (last_name e))),
                            ShaderSource (Suc (Suc (last_name e))) fsrc,
                            CompileShader (Suc (Suc (last_name e))),
                            DeleteShader (Suc (Suc (last_name e)))],
       shaders := (shaders e)(Suc (last_name e) \<mapsto>
          \<lparr>sh_type = GL_VERTEX_SHADER, sh_source = Some vsrc, sh_compile_status = True,
           sh_info_log = vtxt, sh_attached_to = [], sh_delete_flag = False\<rparr>,
          Suc (Suc (last_name e)) := None),
       last_name := Suc (Suc (last_name e))\<rparr>)"
  by (simp add: Shader_create_program_def Shader_compile_succeeds [OF assms(1)]
        Shader_compile_fails [OF assms(2)])

lemma create_program_link_fails:
  assumes "compile_result drv GL_VERTEX_SHADER (Some vsrc) = (True, vtxt)"
    and "compile_result drv GL_FRAGMENT_SHADER (Some fsrc) = (True, ftxt)"
    and "link_result drv [Some vsrc, Some fsrc] = (False, info)"
  shows "fst (Shader_create_program drv vsrc fsrc e) =
    Inl (Runtime_error (''Program link failed: '' @ (if info = [] then [] else info @ [CHR 0x00])))"
  apply (simp only: Shader_create_program_def Shader_compile_succeeds [OF assms(1)]
        Shader_compile_succeeds [OF assms(2)] prod.case sum.case Let_def case_prod_beta)
  apply (simp add: assms(3) glCreateProgram_def fresh_name_def issue_def
        glAttachShader_def update_shader_def update_program_def glLinkProgram_def glDeleteShader_def
        glGetProgramiv_LINK_STATUS_def glGetProgramiv_INFO_LOG_LENGTH_def glGetProgramInfoLog_def
        log_string_read)
  done


lemma create_program_link_fails_env:
  assumes "compile_result drv GL_VERTEX_SHADER (Some vsrc) = (True, vtxt)"
    and "compile_result drv GL_FRAGMENT_SHADER (Some fsrc) = (True, ftxt)"
    and "link_result drv [Some vsrc, Some fsrc] = (False, info)"
  shows "programs (snd (Shader_create_program drv vsrc fsrc e)) (Suc (Suc (Suc (last_name e)))) = None"
    and "shaders (snd (Shader_create_program drv vsrc fsrc e)) (Suc (last_name e)) = None"
    and "shaders (snd (Shader_create_program drv vsrc fsrc e)) (Suc (Suc (last_name e))) = None"
    and "calls (snd (Shader_create_program drv vsrc fsrc e)) =
           calls e @ [CreateShader GL_VERTEX_SHADER (Suc (last_name e)),
                      ShaderSource (Suc (last_name e)) vsrc,
                      CompileShader (Suc (last_name e)),
                      CreateShader GL_FRAGMENT_SHADER (Suc (Suc (last_name e))),
                      ShaderSource (Suc (Suc (last_name e))) fsrc,
                      CompileShader (Suc (Suc (last_name e))),
                      CreateProgram (Suc (Suc (Suc (last_name e)))),
                      AttachShader (Suc (Suc (Suc (last_name e)))) (Suc (last_name e)),
                      AttachShader (Suc (Suc (Suc (last_name e)))) (Suc (Suc (last_name e))),
                      LinkProgram (Suc (Suc (Suc (last_name e)))),
                      DeleteShader (Suc (last_name e)),
                      DeleteShader (Suc (Suc (last_name e))),
                      DeleteProgram (Suc (Suc (Suc (last_name e))))]"
    and "stderr (snd (Shader_create_program drv vsrc fsrc e)) = stderr e"
  apply (simp_all only: Shader_create_program_def Shader_compile_succeeds [OF assms(1)]
        Shader_compile_succeeds [OF assms(2)] prod.case sum.case Let_def case_prod_beta)
  apply (simp_all add: assms(3) glCreateProgram_def fresh_name_def issue_def
        glAttachShader_def update_shader_def update_program_def glLinkProgram_def glDeleteShader_def
        glGetProgramiv_LINK_STATUS_def glGetProgramiv_INFO_LOG_LENGTH_def glGetProgramInfoLog_def
        glDeleteProgram_def detach_shader_def log_string_read)
  done

lemma create_program_succeeds:
  assumes "compile_result drv GL_VERTEX_SHADER (Some vsrc) = (True, vtxt)"
    and "compile_result drv GL_FRAGMENT_SHADER (Some fsrc) = (True, ftxt)"
    and "link_result drv [Some vsrc, Some fsrc] = (True, info)"
  shows "fst (Shader_create_program drv vsrc fsrc e) = Inr (Suc (Suc (Suc (last_name e))))"
    and "stderr (snd (Shader_create_program drv vsrc fsrc e)) = stderr e"
    and "programs (snd (Shader_create_program drv vsrc fsrc e)) (Suc (Suc (Suc (last_name e)))) =
           Some \<lparr>pr_attached = [Suc (last_name e), Suc (Suc (last_name e))],
                 pr_link_status = True, pr_info_log = info\<rparr>"
  apply (simp_all only: Shader_create_program_def Shader_compile_succeeds [OF assms(1)]
        Shader_compile_succeeds [OF assms(2)] prod.case sum.case Let_def case_prod_beta)
  apply (simp_all add: assms(3) glCreateProgram_def fresh_name_def issue_def
        glAttachShader_def update_shader_def update_program_def glLinkProgram_def glDeleteShader_def
        glGetProgramiv_LINK_STATUS_def)
  done


lemma create_shader_program_rethrows:
  assumes "fst (Shader_create_program drv Vs_src Fs_src e) = Inl ex"
  shows "create_shader_program drv (r, e) =
     (Inl ex, r,
      fprintf_stderr (''[Renderer] Shader creation failed: '' @ c_str (what ex) @ [CHR 0x0A])
        (snd (Shader_create_program drv Vs_src Fs_src e)))"
  using assms by (cases "Shader_create_program drv Vs_src Fs_src e") (simp add: create_shader_program_def)

lemma create_shader_program_assigns:
  assumes "fst (Shader_create_program drv Vs_src Fs_src e) = Inr p"
  shows "create_shader_program drv (r, e) =
     (Inr (), r\<lparr>m_program := p\<rparr>, snd (Shader_create_program drv Vs_src Fs_src e))"
  using assms by (cases "Shader_create_program drv Vs_src Fs_src e") (simp add: create_shader_program_def)

lemma init_propagates:
  assumes "create_shader_program drv (r\<lparr>m_viewport_width := w, m_viewport_height := h\<rparr>, e) = (Inl ex, r', e')"
  shows "init drv w h (r, e) = (Inl ex, r', e')"
  using assms by (simp add: init_def)

lemma sublist_log: "sublist info (pre @ (if info = [] then [] else info @ [c]))"
  by (simp add: sublist_append)

lemma fprintf_fields:
  "stderr (fprintf_stderr s e) = stderr e @ s"
  "shaders (fprintf_stderr s e) = shaders e"
  "programs (fprintf_stderr s e) = programs e"
  "calls (fprintf_stderr s e) = calls e"
  by (simp_all add: fprintf_stderr_def)

lemma vertex_failure:
  assumes "compile_result drv GL_VERTEX_SHADER (Some Vs_src) = (False, info)"
  shows "\<exists>msg e'.
     create_shader_program drv (r, e) = (Inl (Runtime_error msg), r, e') \<and>
     msg = ''Shader compile failed: '' @ (if info = [] then [] else info @ [CHR 0x00]) \<and>
     sublist info msg \<and>
     stderr e' = stderr e @ ''[Renderer] Shader creation failed: '' @ c_str msg @ [CHR 0x0A] \<and>
     last (calls e') = DeleteShader (Suc (last_name e)) \<and>
     shaders e' (Suc (last_name e)) = None \<and>
     init drv w h (r, e) =
       (Inl (Runtime_error msg), r\<lparr>m_viewport_width := w, m_viewport_height := h\<rparr>, e')"
proof -
  let ?msg = "''Shader compile failed: '' @ (if info = [] then [] else info @ [CHR 0x00])"
  note run = create_program_vertex_fails [OF assms, of Fs_src e]
  have f: "fst (Shader_create_program drv Vs_src Fs_src e) = Inl (Runtime_error ?msg)"
    by (simp only: run fst_conv)
  let ?e' = "fprintf_stderr (''[Renderer] Shader creation failed: '' @ c_str ?msg @ [CHR 0x0A])
        (snd (Shader_create_program drv Vs_src Fs_src e))"
  have c: "create_shader_program drv (r', e) = (Inl (Runtime_error ?msg), r', ?e')" for r'
    using create_shader_program_rethrows [OF f] by simp
  have "stderr ?e' = stderr e @ ''[Renderer] Shader creation failed: '' @ c_str ?msg @ [CHR 0x0A]"
    by (simp only: fprintf_fields run snd_conv) simp
  moreover have "last (calls ?e') = DeleteShader (Suc (last_name e))"
    by (simp only: fprintf_fields run snd_conv) simp
  moreover have "shaders ?e' (Suc (last_name e)) = None"
    by (simp only: fprintf_fields run snd_conv) simp
  moreover have "sublist info ?msg" by (rule sublist_log)
  moreover note c [of r] init_propagates [OF c]
  ultimately show ?thesis by blast
qed

lemma fragment_failure:
  assumes "compile_result drv GL_VERTEX_SHADER (Some Vs_src) = (True, vtxt)"
    and "compile_result drv GL_FRAGMENT_SHADER (Some Fs_src) = (False, info)"
  shows "\<exists>msg e'.
     create_shader_program drv (r, e) = (Inl (Runtime_error msg), r, e') \<and>
     msg = ''Shader compile failed: '' @ (if info = [] then [] else info @ [CHR 0x00]) \<and>
     sublist info msg \<and>
     stderr e' = stderr e @ ''[Renderer] Shader creation failed: '' @ c_str msg @ [CHR 0x0A] \<and>
     last (calls e') = DeleteShader (Suc (Suc (last_name e))) \<and>
     shaders e' (Suc (Suc (last_name e))) = None \<and>
     init drv w h (r, e) =
       (Inl (Runtime_error msg), r\<lparr>m_viewport_width := w, m_viewport_height := h\<rparr>, e')"
proof -
  let ?msg = "''Shader compile failed: '' @ (if info = [] then [] else info @ [CHR 0x00])"
  note run = create_program_fragment_fails [OF assms, of e]
  have f: "fst (Shader_create_program drv Vs_src Fs_src e) = Inl (Runtime_error ?msg)"
    by (simp only: run fst_conv)
  let ?e' = "fprintf_stderr (''[Renderer] Shader creation failed: '' @ c_str ?msg @ [CHR 0x0A])
        (snd (Shader_create_program drv Vs_src Fs_src e))"
  have c: "create_shader_program drv (r', e) = (Inl (Runtime_error ?msg), r', ?e')" for r'
    using create_shader_program_rethrows [OF f] by simp
  have "stderr ?e' = stderr e @ ''[Renderer] Shader creation failed: '' @ c_str ?msg @ [CHR 0x0A]"
    by (simp only: fprintf_fields run snd_conv) simp
  moreover have "last (calls ?e') = DeleteShader (Suc (Suc (last_name e)))"
    by (simp only: fprintf_fields run snd_conv) simp
  moreover have "shaders ?e' (Suc (Suc (last_name e))) = None"
    by (simp only: fprintf_fields run snd_conv) simp
  moreover have "sublist info ?msg" by (rule sublist_log)
  moreover note c [of r] init_propagates [OF c]
  ultimately show ?thesis by blast
qed

lemma link_failure:
  assumes "compile_result drv GL_VERTEX_SHADER (Some Vs_src) = (True, vtxt)"
    and "compile_result drv GL_FRAGMENT_SHADER (Some Fs_src) = (True, ftxt)"
    and "link_result drv [Some Vs_src, Some Fs_src] = (False, info)"
  shows "\<exists>msg e'.
     create_shader_program drv (r, e) = (Inl (Runtime_error msg), r, e') \<and>
     msg = ''Program link failed: '' @ (if info = [] then [] else info @ [CHR 0x00]) \<and>
     sublist info msg \<and>
     stderr e' = stderr e @ ''[Renderer] Shader creation failed: '' @ c_str msg @ [CHR 0x0A] \<and>
     last (calls e') = DeleteProgram (Suc (Suc (Suc (last_name e)))) \<and>
     programs e' (Suc (Suc (Suc (last_name e)))) = None \<and>
     init drv w h (r, e) =
       (Inl (Runtime_error msg), r\<lparr>m_viewport_width := w, m_viewport_height := h\<rparr>, e')"
proof -
  let ?msg = "''Program link failed: '' @ (if info = [] then [] else info @ [CHR 0x00])"
  note f = create_program_link_fails [OF assms, of e]
  note env = create_program_link_fails_env [OF assms, of e]
  let ?e' = "fprintf_stderr (''[Renderer] Shader creation failed: '' @ c_str ?msg @ [CHR 0x0A])
        (snd (Shader_create_program drv Vs_src Fs_src e))"
  have c: "create_shader_program drv (r', e) = (Inl (Runtime_error ?msg), r', ?e')" for r'
    using create_shader_program_rethrows [OF f] by simp
  have "stderr ?e' = stderr e @ ''[Renderer] Shader creation failed: '' @ c_str ?msg @ [CHR 0x0A]"
    by (simp only: fprintf_fields env)
  moreover have "last (calls ?e') = DeleteProgram (Suc (Suc (Suc (last_name e))))"
    by (simp only: fprintf_fields env) simp
  moreover have "programs ?e' (Suc (Suc (Suc (last_name e)))) = None"
    by (simp only: fprintf_fields env)
  moreover have "sublist info ?msg" by (rule sublist_log)
  moreover note c [of r] init_propagates [OF c]
  ultimately show ?thesis by blast
qed

lemma no_failure:
  assumes "compile_result drv GL_VERTEX_SHADER (Some Vs_src) = (True, vtxt)"
    and "compile_result drv GL_FRAGMENT_SHADER (Some Fs_src) = (True, ftxt)"
    and "link_result drv [Some Vs_src, Some Fs_src] = (True, info)"
  shows "\<exists>e'. create_shader_program drv (r, e) = (Inr (), r\<lparr>m_program := Suc (Suc (Suc (last_name e)))\<rparr>, e') \<and>
     stderr e' = stderr e"
  using create_shader_program_assigns [OF create_program_succeeds(1) [OF assms, of e], of r]
    create_program_succeeds(2) [OF assms, of e]
  by simp


text \<open>
  Claim C9.  When the vertex stage or the fragment stage does not compile, or the program
  does not link, \<open>Shader::create_program\<close> throws a \<open>runtime_error\<close> whose message holds the
  driver's diagnostic text; \<open>Renderer::create_shader_program\<close> prints it and rethrows the same
  exception, which leaves \<open>init\<close> before the quad mesh and the instance buffer are created.
  The last command issued before the throw deletes the shader or program that failed, and
  that object is gone from the context.  Only when all three steps succeed is a program
  assigned to \<open>m_program\<close>, and then nothing is printed.
\<close>

theorem shader_failure_is_fatal:
  "(compile_result drv GL_VERTEX_SHADER (Some Vs_src) = (False, info) \<longrightarrow>
      (\<exists>msg e'.
         create_shader_program drv (r, e) = (Inl (Runtime_error msg), r, e') \<and>
         msg = ''Shader compile failed: '' @ (if info = [] then [] else info @ [CHR 0x00]) \<and>
         sublist info msg \<and>
         stderr e' = stderr e @ ''[Renderer] Shader creation failed: '' @ c_str msg @ [CHR 0x0A] \<and>
         last (calls e') = DeleteShader (Suc (last_name e)) \<and>
         shaders e' (Suc (last_name e)) = None \<and>
         init drv w h (r, e) =
           (Inl (Runtime_error msg), r\<lparr>m_viewport_width := w, m_viewport_height := h\<rparr>, e'))) \<and>
   (compile_result drv GL_VERTEX_SHADER (Some Vs_src) = (True, vtxt) \<and>
    compile_result drv GL_FRAGMENT_SHADER (Some Fs_src) = (False, info) \<longrightarrow>
      (\<exists>msg e'.
         create_shader_program drv (r, e) = (Inl (Runtime_error msg), r, e') \<and>
         msg = ''Shader compile failed: '' @ (if info = [] then [] else info @ [CHR 0x00]) \<and>
         sublist info msg \<and>
         stderr e' = stderr e @ ''[Renderer] Shader creation failed: '' @ c_str msg @ [CHR 0x0A] \<and>
         last (calls e') = DeleteShader (Suc (Suc (last_name e))) \<and>
         shaders e' (Suc (Suc (last_name e))) = None \<and>
         init drv w h (r, e) =
           (Inl (Runtime_error msg), r\<lparr>m_viewport_width := w, m_viewport_height := h\<rparr>, e'))) \<and>
   (compile_result drv GL_VERTEX_SHADER (Some Vs_src) = (True, vtxt) \<and>
    compile_result drv GL_FRAGMENT_SHADER (Some Fs_src) = (True, ftxt) \<and>
    link_result drv [Some Vs_src, Some Fs_src] = (False, info) \<longrightarrow>
      (\<exists>msg e'.
         create_shader_program drv (r, e) = (Inl (Runtime_error msg), r, e') \<and>
         msg = ''Program link failed: '' @ (if info = [] then [] else info @ [CHR 0x00]) \<and>
         sublist info msg \<and>
         stderr e' = stderr e @ ''[Renderer] Shader creation failed: '' @ c_str msg @ [CHR 0x0A] \<and>
         last (calls e') = DeleteProgram (Suc (Suc (Suc (last_name e)))) \<and>
         programs e' (Suc (Suc (Suc (last_name e)))) = None \<and>
         init drv w h (r, e) =
           (Inl (Runtime_error msg), r\<lparr>m_viewport_width := w, m_viewport_height := h\<rparr>, e'))) \<and>
   (compile_result drv GL_VERTEX_SHADER (Some Vs_src) = (True, vtxt) \<and>
    compile_result drv GL_FRAGMENT_SHADER (Some Fs_src) = (True, ftxt) \<and>
    link_result drv [Some Vs_src, Some Fs_src] = (True, info) \<longrightarrow>
      (\<exists>e'. create_shader_program drv (r, e) =
               (Inr (), r\<lparr>m_program := Suc (Suc (Suc (last_name e)))\<rparr>, e') \<and>
            stderr e' = stderr e))"
proof (intro conjI impI)
  assume "compile_result drv GL_VERTEX_SHADER (Some Vs_src) = (False, info)"
  then show "\<exists>msg e'.
         create_shader_program drv (r, e) = (Inl (Runtime_error msg), r, e') \<and>
         msg = ''Shader compile failed: '' @ (if info = [] then [] else info @ [CHR 0x00]) \<and>
         sublist info msg \<and>
         stderr e' = stderr e @ ''[Renderer] Shader creation failed: '' @ c_str msg @ [CHR 0x0A] \<and>
         last (calls e') = DeleteShader (Suc (last_name e)) \<and>
         shaders e' (Suc (last_name e)) = None \<and>
         init drv w h (r, e) =
           (Inl (Runtime_error msg), r\<lparr>m_viewport_width := w, m_viewport_height := h\<rparr>, e')"
    by (rule vertex_failure)
next
  assume "compile_result drv GL_VERTEX_SHADER (Some Vs_src) = (True, vtxt) \<and>
    compile_result drv GL_FRAGMENT_SHADER (Some Fs_src) = (False, info)"
  then show "\<exists>msg e'.
         create_shader_program drv (r, e) = (Inl (Runtime_error msg), r, e') \<and>
         msg = ''Shader compile failed: '' @ (if info = [] then [] else info @ [CHR 0x00]) \<and>
         sublist info msg \<and>
         stderr e' = stderr e @ ''[Renderer] Shader creation failed: '' @ c_str msg @ [CHR 0x0A] \<and>
         last (calls e') = DeleteShader (Suc (Suc (last_name e))) \<and>
         shaders e' (Suc (Suc (last_name e))) = None \<and>
         init drv w h (r, e) =
           (Inl (Runtime_error msg), r\<lparr>m_viewport_width := w, m_viewport_height := h\<rparr>, e')"
    using fragment_failure [of drv vtxt info r e w h] by (elim conjE) blast
next
  assume "compile_result drv GL_VERTEX_SHADER (Some Vs_src) = (True, vtxt) \<and>
    compile_result drv GL_FRAGMENT_SHADER (Some Fs_src) = (True, ftxt) \<and>
    link_result drv [Some Vs_src, Some Fs_src] = (False, info)"
  then show "\<exists>msg e'.
         create_shader_program drv (r, e) = (Inl (Runtime_error msg), r, e') \<and>
         msg = ''Program link failed: '' @ (if info = [] then [] else info @ [CHR 0x00]) \<and>
         sublist info msg \<and>
         stderr e' = stderr e @ ''[Renderer] Shader creation failed: '' @ c_str msg @ [CHR 0x0A] \<and>
         last (calls e') = DeleteProgram (Suc (Suc (Suc (last_name e)))) \<and>
         programs e' (Suc (Suc (Suc (last_name e)))) = None \<and>
         init drv w h (r, e) =
           (Inl (Runtime_error msg), r\<lparr>m_viewport_width := w, m_viewport_height := h\<rparr>, e')"
    using link_failure [of drv vtxt ftxt info r e w h] by (elim conjE) blast
next
  assume "compile_result drv GL_VERTEX_SHADER (Some Vs_src) = (True, vtxt) \<and>
    compile_result drv GL_FRAGMENT_SHADER (Some Fs_src) = (True, ftxt) \<and>
    link_result drv [Some Vs_src, Some Fs_src] = (True, info)"
  then show "\<exists>e'. create_shader_program drv (r, e) =
               (Inr (), r\<lparr>m_program := Suc (Suc (Suc (last_name e)))\<rparr>, e') \<and>
            stderr e' = stderr e"
    using no_failure [of drv vtxt ftxt info r e] by (elim conjE) blast
qed

theorem shader_failure_is_fatal_witness:
  "compile_result bad_vertex_driver GL_VERTEX_SHADER (Some Vs_src) = (False, ''0:9: syntax error'') \<and>
   fst (init bad_vertex_driver 800 600 (Renderer_ctor, new_context :: real env)) =
     Inl (Runtime_error (''Shader compile failed: 0:9: syntax error'' @ [CHR 0x00])) \<and>
   stderr (snd (snd (init bad_vertex_driver 800 600 (Renderer_ctor, new_context :: real env)))) =
     ''[Renderer] Shader creation failed: Shader compile failed: 0:9: syntax error'' @ [CHR 0x0A] \<and>
   m_quad_mesh (fst (snd (init bad_vertex_driver 800 600 (Renderer_ctor, new_context :: real env)))) = None \<and>
   (compile_result bad_fragment_driver GL_VERTEX_SHADER (Some Vs_src) = (True, []) \<and>
    compile_result bad_fragment_driver GL_FRAGMENT_SHADER (Some Fs_src) = (False, ''0:7: undeclared'')) \<and>
   fst (init bad_fragment_driver 800 600 (Renderer_ctor, new_context :: real env)) =
     Inl (Runtime_error (''Shader compile failed: 0:7: undeclared'' @ [CHR 0x00])) \<and>
   (compile_result bad_link_driver GL_VERTEX_SHADER (Some Vs_src) = (True, []) \<and>
    compile_result bad_link_driver GL_FRAGMENT_SHADER (Some Fs_src) = (True, []) \<and>
    link_result bad_link_driver [Some Vs_src, Some Fs_src] = (False, ''varying mismatch'')) \<and>
   fst (init bad_link_driver 800 600 (Renderer_ctor, new_context :: real env)) =
     Inl (Runtime_error (''Program link failed: varying mismatch'' @ [CHR 0x00])) \<and>
   (compile_result good_driver GL_VERTEX_SHADER (Some Vs_src) = (True, []) \<and>
    compile_result good_driver GL_FRAGMENT_SHADER (Some Fs_src) = (True, []) \<and>
    link_result good_driver [Some Vs_src, Some Fs_src] = (True, [])) \<and>
   fst (create_shader_program good_driver (Renderer_ctor, new_context :: real env)) = Inr ()"
proof -
  let ?e = "new_context :: real env"
  have hA: "compile_result bad_vertex_driver GL_VERTEX_SHADER (Some Vs_src) = (False, ''0:9: syntax error'')"
    by (simp add: bad_vertex_driver_def good_driver_def)
  have hB: "compile_result bad_fragment_driver GL_VERTEX_SHADER (Some Vs_src) = (True, []) \<and>
    compile_result bad_fragment_driver GL_FRAGMENT_SHADER (Some Fs_src) = (False, ''0:7: undeclared'')"
    by (simp add: bad_fragment_driver_def good_driver_def)
  have hC: "compile_result bad_link_driver GL_VERTEX_SHADER (Some Vs_src) = (True, []) \<and>
    compile_result bad_link_driver GL_FRAGMENT_SHADER (Some Fs_src) = (True, []) \<and>
    link_result bad_link_driver [Some Vs_src, Some Fs_src] = (False, ''varying mismatch'')"
    by (simp add: bad_link_driver_def good_driver_def)
  have hD: "compile_result good_driver GL_VERTEX_SHADER (Some Vs_src) = (True, []) \<and>
    compile_result good_driver GL_FRAGMENT_SHADER (Some Fs_src) = (True, []) \<and>
    link_result good_driver [Some Vs_src, Some Fs_src] = (True, [])"
    by (simp add: good_driver_def)
  from shader_failure_is_fatal [where drv = bad_vertex_driver and info = "''0:9: syntax error''"
        and r = Renderer_ctor and e = ?e and w = 800 and h = 600,
      THEN conjunct1, rule_format, OF hA]
  have a: "fst (init bad_vertex_driver 800 600 (Renderer_ctor, ?e)) =
       Inl (Runtime_error (''Shader compile failed: 0:9: syntax error'' @ [CHR 0x00])) \<and>
     stderr (snd (snd (init bad_vertex_driver 800 600 (Renderer_ctor, ?e)))) =
       ''[Renderer] Shader creation failed: Shader compile failed: 0:9: syntax error'' @ [CHR 0x0A] \<and>
     m_quad_mesh (fst (snd (init bad_vertex_driver 800 600 (Renderer_ctor, ?e)))) = None"
    by (auto simp add: new_context_def Renderer_ctor_def c_str_def)
  from shader_failure_is_fatal [where drv = bad_fragment_driver and info = "''0:7: undeclared''"
        and vtxt = "[]" and r = Renderer_ctor and e = ?e and w = 800 and h = 600,
      THEN conjunct2, THEN conjunct1, rule_format, OF hB]
  have b: "fst (init bad_fragment_driver 800 600 (Renderer_ctor, ?e)) =
       Inl (Runtime_error (''Shader compile failed: 0:7: undeclared'' @ [CHR 0x00]))"
    by auto
  from shader_failure_is_fatal [where drv = bad_link_driver and info = "''varying mismatch''"
        and vtxt = "[]" and ftxt = "[]" and r = Renderer_ctor and e = ?e and w = 800 and h = 600,
      THEN conjunct2, THEN conjunct2, THEN conjunct1, rule_format, OF hC]
  have c: "fst (init bad_link_driver 800 600 (Renderer_ctor, ?e)) =
       Inl (Runtime_error (''Program link failed: varying mismatch'' @ [CHR 0x00]))"
    by auto
  from shader_failure_is_fatal [where drv = good_driver and info = "[]"
        and vtxt = "[]" and ftxt = "[]" and r = Renderer_ctor and e = ?e,
      THEN conjunct2, THEN conjunct2, THEN conjunct2, rule_format, OF hD]
  have d: "fst (create_shader_program good_driver (Renderer_ctor, ?e)) = Inr ()"
    by auto
  show ?thesis using hA hB hC hD a b c d by blast
qed

section \<open>Properties of scene loading\<close>



















end
